theory Spec2Isabelle
  imports
    Main
    "HOL-Library.Word"
    "HOL-Library.Char_ord"
    "HOL-Library.List_Lexorder"
    "HOL-Library.Multiset"
begin

unbundle bit_operations_syntax

section \<open>Python values that occur in a Parameter Set\<close>

text \<open>
  A Python \<open>str\<close> is a \<open>string\<close>, read as the UTF-8 bytes of the text, so that
  \<open>.encode()\<close> is the identity and the lexicographic order of \<open>HOL-Library.List_Lexorder\<close>
  over \<open>HOL-Library.Char_ord\<close> is Python's order on \<open>str\<close> (a proper prefix is smaller).

  A \<open>dict\<close> is an association list in insertion order. The keys of a dict are pairwise
  different: \<open>distinct (map fst d)\<close>. The values of a Parameter Set are scalars or
  dicts of scalars (one level of nesting). The scalars are strings, integers (unbounded),
  booleans and \<open>None\<close>; a float never enters a Parameter Set of the client, which takes
  \<open>str\<close> of it first.
\<close>

datatype scalar = PStr string | PInt int | PBool bool | PNone

datatype pyvalue = Scalar scalar | Dict "(string \<times> scalar) list"

type_synonym pdict = "(string \<times> pyvalue) list"

subsection \<open>\<open>str(value)\<close>\<close>

definition digit_char :: "nat \<Rightarrow> char" where
  "digit_char n = ''0123456789'' ! n"

fun str_nat :: "nat \<Rightarrow> string" where
  "str_nat n = (if n < 10 then [digit_char n] else str_nat (n div 10) @ [digit_char (n mod 10)])"

declare str_nat.simps [simp del]

definition str_int :: "int \<Rightarrow> string" where
  "str_int i = (if i < 0 then CHR ''-'' # str_nat (nat (- i)) else str_nat (nat i))"

fun str :: "scalar \<Rightarrow> string" where
  "str (PStr s) = s"
| "str (PInt i) = str_int i"
| "str (PBool b) = (if b then ''True'' else ''False'')"
| "str PNone = ''None''"

subsection \<open>Dict operations\<close>

text \<open>\<open>d[k] = v\<close>: an existing key keeps its position, a new key goes to the end.\<close>

fun dict_set :: "(string \<times> 'v) list \<Rightarrow> string \<Rightarrow> 'v \<Rightarrow> (string \<times> 'v) list" where
  "dict_set [] k v = [(k, v)]"
| "dict_set ((k', v') # d) k v = (if k' = k then (k, v) # d else (k', v') # dict_set d k v)"

text \<open>\<open>dict(items)\<close>: the pairs are inserted from left to right.\<close>

definition dict_of :: "(string \<times> 'v) list \<Rightarrow> (string \<times> 'v) list" where
  "dict_of items = fold (\<lambda>(k, v) d. dict_set d k v) items []"

text \<open>\<open>k in d\<close>\<close>

definition has_key :: "string \<Rightarrow> (string \<times> 'v) list \<Rightarrow> bool" where
  "has_key k d = (k \<in> fst ` set d)"

text \<open>
  \<open>sorted(d.items())\<close> orders the pairs (key, value); the keys of a dict differ, so the
  comparison of two pairs is decided by their keys and no two values are ever compared.
\<close>

definition sorted_items :: "(string \<times> 'v) list \<Rightarrow> (string \<times> 'v) list" where
  "sorted_items d = sort_key fst d"

section \<open>SHA-256 (\<open>hashlib.sha256(b).hexdigest()\<close>)\<close>

text \<open>
  The hash comes from Python's standard library. It is the SHA-256 of FIPS 180-4, written
  here on 32-bit words: the round constants and the initial state, the six logical
  functions, the padding, the message schedule, the compression of one block, and the
  digest as 64 lowercase hexadecimal digits.
\<close>

type_synonym u32 = "32 word"
type_synonym u8 = "8 word"

definition K256 :: "u32 list" where
  "K256 = [
    0x428A2F98, 0x71374491, 0xB5C0FBCF, 0xE9B5DBA5, 0x3956C25B, 0x59F111F1, 0x923F82A4, 0xAB1C5ED5,
    0xD807AA98, 0x12835B01, 0x243185BE, 0x550C7DC3, 0x72BE5D74, 0x80DEB1FE, 0x9BDC06A7, 0xC19BF174,
    0xE49B69C1, 0xEFBE4786, 0x0FC19DC6, 0x240CA1CC, 0x2DE92C6F, 0x4A7484AA, 0x5CB0A9DC, 0x76F988DA,
    0x983E5152, 0xA831C66D, 0xB00327C8, 0xBF597FC7, 0xC6E00BF3, 0xD5A79147, 0x06CA6351, 0x14292967,
    0x27B70A85, 0x2E1B2138, 0x4D2C6DFC, 0x53380D13, 0x650A7354, 0x766A0ABB, 0x81C2C92E, 0x92722C85,
    0xA2BFE8A1, 0xA81A664B, 0xC24B8B70, 0xC76C51A3, 0xD192E819, 0xD6990624, 0xF40E3585, 0x106AA070,
    0x19A4C116, 0x1E376C08, 0x2748774C, 0x34B0BCB5, 0x391C0CB3, 0x4ED8AA4A, 0x5B9CCA4F, 0x682E6FF3,
    0x748F82EE, 0x78A5636F, 0x84C87814, 0x8CC70208, 0x90BEFFFA, 0xA4506CEB, 0xBEF9A3F7, 0xC67178F2]"

type_synonym sha_state = "u32 \<times> u32 \<times> u32 \<times> u32 \<times> u32 \<times> u32 \<times> u32 \<times> u32"

definition H256 :: sha_state where
  "H256 = (0x6A09E667, 0xBB67AE85, 0x3C6EF372, 0xA54FF53A,
           0x510E527F, 0x9B05688C, 0x1F83D9AB, 0x5BE0CD19)"

definition rotr :: "nat \<Rightarrow> u32 \<Rightarrow> u32" where
  "rotr n x = word_rotr n x"

definition Ch :: "u32 \<Rightarrow> u32 \<Rightarrow> u32 \<Rightarrow> u32" where
  "Ch x y z = (x AND y) XOR (NOT x AND z)"

definition Maj :: "u32 \<Rightarrow> u32 \<Rightarrow> u32 \<Rightarrow> u32" where
  "Maj x y z = (x AND y) XOR (x AND z) XOR (y AND z)"

definition bsig0 :: "u32 \<Rightarrow> u32" where
  "bsig0 x = rotr 2 x XOR rotr 13 x XOR rotr 22 x"

definition bsig1 :: "u32 \<Rightarrow> u32" where
  "bsig1 x = rotr 6 x XOR rotr 11 x XOR rotr 25 x"

definition ssig0 :: "u32 \<Rightarrow> u32" where
  "ssig0 x = rotr 7 x XOR rotr 18 x XOR drop_bit 3 x"

definition ssig1 :: "u32 \<Rightarrow> u32" where
  "ssig1 x = rotr 17 x XOR rotr 19 x XOR drop_bit 10 x"

text \<open>Padding: the byte 0x80, zero bytes up to 56 modulo 64, the bit length on 8 bytes.\<close>

definition be_bytes :: "64 word \<Rightarrow> u8 list" where
  "be_bytes n = map (\<lambda>i. ucast (drop_bit (8 * (7 - i)) n)) [0..<8]"

definition sha256_pad :: "u8 list \<Rightarrow> u8 list" where
  "sha256_pad m =
     m @ [0x80] @ replicate ((119 - length m mod 64) mod 64) 0 @ be_bytes (of_nat (8 * length m))"

fun be32 :: "u8 list \<Rightarrow> u32" where
  "be32 [] = 0"
| "be32 (b # bs) = push_bit (8 * length bs) (ucast b) OR be32 bs"

definition block_words :: "u8 list \<Rightarrow> u32 list" where
  "block_words blk = map (\<lambda>i. be32 (take 4 (drop (4 * i) blk))) [0..<16]"

fun schedule :: "nat \<Rightarrow> u32 list \<Rightarrow> u32 list" where
  "schedule 0 w = w"
| "schedule (Suc n) w =
     (let t = length w
      in schedule n (w @ [ssig1 (w ! (t - 2)) + w ! (t - 7) + ssig0 (w ! (t - 15)) + w ! (t - 16)]))"

fun sha256_round :: "u32 \<times> u32 \<Rightarrow> sha_state \<Rightarrow> sha_state" where
  "sha256_round (w, k) (a, b, c, d, e, f, g, h) =
     (let t1 = h + bsig1 e + Ch e f g + k + w;
          t2 = bsig0 a + Maj a b c
      in (t1 + t2, a, b, c, d + t1, e, f, g))"

fun add_state :: "sha_state \<Rightarrow> sha_state \<Rightarrow> sha_state" where
  "add_state (a, b, c, d, e, f, g, h) (a', b', c', d', e', f', g', h') =
     (a + a', b + b', c + c', d + d', e + e', f + f', g + g', h + h')"

definition compress :: "u8 list \<Rightarrow> sha_state \<Rightarrow> sha_state" where
  "compress blk hs = add_state hs (fold sha256_round (zip (schedule 48 (block_words blk)) K256) hs)"

definition blocks :: "u8 list \<Rightarrow> u8 list list" where
  "blocks m = map (\<lambda>i. take 64 (drop (64 * i) m)) [0..<length m div 64]"

definition sha256 :: "u8 list \<Rightarrow> sha_state" where
  "sha256 m = fold compress (blocks (sha256_pad m)) H256"

definition hex_char :: "nat \<Rightarrow> char" where
  "hex_char n = ''0123456789abcdef'' ! (n mod 16)"

definition hex32 :: "u32 \<Rightarrow> string" where
  "hex32 w = map (\<lambda>i. hex_char (unat (drop_bit (28 - 4 * i) w))) [0..<8]"

fun hexdigest :: "sha_state \<Rightarrow> string" where
  "hexdigest (a, b, c, d, e, f, g, h) =
     hex32 a @ hex32 b @ hex32 c @ hex32 d @ hex32 e @ hex32 f @ hex32 g @ hex32 h"

text \<open>\<open>hashlib.sha256(s.encode()).hexdigest()\<close>\<close>

definition sha256_hexdigest :: "string \<Rightarrow> string" where
  "sha256_hexdigest s = hexdigest (sha256 (map of_char s))"

section \<open>The client (\<open>api.py\<close>)\<close>

datatype OrderType = BUY | SELL

datatype TradeType = LIMIT | MARKET | STOP_LIMIT | QUICK_MARKET | HIDDEN_LIMIT

fun OrderType_value :: "OrderType \<Rightarrow> int" where
  "OrderType_value BUY = 0"
| "OrderType_value SELL = 1"

fun TradeType_value :: "TradeType \<Rightarrow> int" where
  "TradeType_value LIMIT = 0"
| "TradeType_value MARKET = 1"
| "TradeType_value STOP_LIMIT = 2"
| "TradeType_value QUICK_MARKET = 3"
| "TradeType_value HIDDEN_LIMIT = 4"

record DexTradeConfig =
  base_url :: string
  socket_url :: string
  login_token :: "string option"
  secret :: "string option"

definition default_config :: DexTradeConfig where
  "default_config =
     \<lparr>base_url = ''https://api.dex-trade.com/v1'', socket_url = ''https://socket.dex-trade.com'',
      login_token = None, secret = None\<rparr>"

text \<open>
  The exceptions that leave the client. Both checks of the client raise \<open>ValueError\<close>,
  told apart by the message; \<open>HTTPError\<close> is what \<open>raise_for_status\<close> raises,
  \<open>ConnectionError\<close> what the transport raises, \<open>JSONDecodeError\<close> and
  \<open>KeyError\<close> what reading the response can raise.
\<close>

datatype error =
    ValueError string
  | HTTPError nat
  | ConnectionError
  | JSONDecodeError
  | KeyError string

text \<open>The truth value of an \<open>Optional[str]\<close>: \<open>None\<close> and the empty string are false.\<close>

fun truthy_str :: "string option \<Rightarrow> bool" where
  "truthy_str None = False"
| "truthy_str (Some s) = (s \<noteq> [])"

subsection \<open>\<open>_generate_signature\<close>\<close>

text \<open>
  The body of the loop over \<open>sorted_params.items()\<close>, with the list \<open>values\<close> as
  accumulator.
\<close>

fun collect :: "string \<times> pyvalue \<Rightarrow> string list \<Rightarrow> string list" where
  "collect (key, Dict d) values =
     (let nested_sorted = dict_of (sorted_items d)
      in values @ map (\<lambda>(k, v). str v) nested_sorted)"
| "collect (key, Scalar v) values = values @ [str v]"

definition generate_signature :: "DexTradeConfig \<Rightarrow> pdict \<Rightarrow> error + string" where
  "generate_signature cfg params =
     (if \<not> truthy_str (secret cfg) then
        Inl (ValueError ''Secret key is required for private API calls'')
      else
        let sorted_params = dict_of (sorted_items params);
            values = fold collect sorted_params [];
            values_str = concat values @ the (secret cfg)
        in Inr (sha256_hexdigest values_str))"

subsection \<open>The session, the objects and the network\<close>

datatype verb = GET | POST

text \<open>
  One call of \<open>session.get(url, params=params)\<close> or \<open>session.post(url, json=params)\<close>:
  the verb, the URL, the content of \<open>params\<close> at that moment (\<open>None\<close> when the
  argument is \<open>None\<close>) and the headers that the session adds to the request, which
  are the session's own headers, the call giving none of its own.
\<close>

record request =
  req_verb :: verb
  req_url :: string
  req_params :: "pdict option"
  req_headers :: "string \<rightharpoonup> string"

record 'j response =
  status_code :: nat
  json :: "'j option"

text \<open>
  The object \<open>self\<close>: the configuration and \<open>self.session.headers\<close>. Of the session's
  headers only the entries written by the client are kept; the defaults of the HTTP
  library stay as they are throughout.
\<close>

record DexTradeAPI =
  config :: DexTradeConfig
  session_headers :: "string \<rightharpoonup> string"

text \<open>
  What lies outside \<open>self\<close>:
  \<^item> \<open>heap\<close>: the dict objects, an address being an index. A \<open>params\<close> argument is an
    address or \<open>None\<close>, so that a caller sees what a call does to its dict;
  \<^item> \<open>clock\<close> and \<open>ticks\<close>: the \<open>n\<close>-th reading of \<open>int(time.time() * 1000000)\<close> and
    the number of readings made so far;
  \<^item> \<open>transport\<close>: what the server and the network answer to a request;
  \<^item> \<open>sent\<close>: every request handed to the transport, oldest first.
\<close>

type_synonym addr = nat

record 'j world =
  heap :: "pdict list"
  clock :: "nat \<Rightarrow> int"
  ticks :: nat
  transport :: "request \<Rightarrow> error + 'j response"
  sent :: "request list"

type_synonym 'j outcome = "(error + 'j) \<times> DexTradeAPI \<times> 'j world"

definition new_dict :: "pdict \<Rightarrow> 'j world \<Rightarrow> addr \<times> 'j world" where
  "new_dict d w = (length (heap w), w\<lparr>heap := heap w @ [d]\<rparr>)"

definition set_item :: "addr \<Rightarrow> string \<Rightarrow> pyvalue \<Rightarrow> 'j world \<Rightarrow> 'j world" where
  "set_item a k v w = w\<lparr>heap := (heap w)[a := dict_set (heap w ! a) k v]\<rparr>"

definition time_us :: "'j world \<Rightarrow> int \<times> 'j world" where
  "time_us w = (clock w (ticks w), w\<lparr>ticks := Suc (ticks w)\<rparr>)"

subsection \<open>\<open>__init__\<close>\<close>

definition init :: "DexTradeConfig \<Rightarrow> DexTradeAPI" where
  "init cfg =
     \<lparr>config = cfg,
      session_headers =
        (if truthy_str (login_token cfg) then
           [''login-token'' \<mapsto> the (login_token cfg), ''content-type'' \<mapsto> ''application/json'']
         else Map.empty)\<rparr>"

subsection \<open>\<open>_make_request\<close>\<close>

text \<open>Lines 98 to 104: the call of the transport and the reading of the response.\<close>

definition send :: "DexTradeAPI \<Rightarrow> 'j world \<Rightarrow> string \<Rightarrow> string \<Rightarrow> addr option \<Rightarrow> 'j outcome" where
  "send self w method url params =
     (let req = \<lparr>req_verb = (if method = ''GET'' then GET else POST), req_url = url,
                 req_params = map_option (\<lambda>a. heap w ! a) params,
                 req_headers = session_headers self\<rparr>;
          w' = w\<lparr>sent := sent w @ [req]\<rparr>
      in case transport w req of
           Inl e \<Rightarrow> (Inl e, self, w')
         | Inr response \<Rightarrow>
             if 400 \<le> status_code response \<and> status_code response < 600 then
               (Inl (HTTPError (status_code response)), self, w')
             else (case json response of
                     None \<Rightarrow> (Inl JSONDecodeError, self, w')
                   | Some j \<Rightarrow> (Inr j, self, w')))"

text \<open>Lines 90 and 91: \<open>if not params: params = {}\<close>.\<close>

definition or_new_dict :: "addr option \<Rightarrow> 'j world \<Rightarrow> addr \<times> 'j world" where
  "or_new_dict params w =
     (case params of
        None \<Rightarrow> new_dict [] w
      | Some a \<Rightarrow> if heap w ! a = [] then new_dict [] w else (a, w))"

text \<open>Lines 92 and 93: the \<open>request_id\<close>.\<close>

definition ensure_request_id :: "addr \<Rightarrow> 'j world \<Rightarrow> 'j world" where
  "ensure_request_id a w =
     (if \<not> has_key ''request_id'' (heap w ! a) then
        (let (t, w') = time_us w
         in set_item a ''request_id'' (Scalar (PStr (str_int t))) w')
      else w)"

definition make_request ::
  "DexTradeAPI \<Rightarrow> 'j world \<Rightarrow> string \<Rightarrow> string \<Rightarrow> addr option \<Rightarrow> bool \<Rightarrow> 'j outcome" where
  "make_request self w method endpoint params private =
     (let url = base_url (config self) @ endpoint
      in if private then
           (let (a, w1) = or_new_dict params w;
                w2 = ensure_request_id a w1
            in case generate_signature (config self) (heap w2 ! a) of
                 Inl e \<Rightarrow> (Inl e, self, w2)
               | Inr signature \<Rightarrow>
                   send (self\<lparr>session_headers := (session_headers self)(''x-auth-sign'' \<mapsto> signature)\<rparr>)
                     w2 method url (Some a))
         else send self w method url params)"

subsection \<open>The endpoint methods\<close>

definition get_symbols ::
  "('j \<Rightarrow> string \<Rightarrow> 'j option) \<Rightarrow> DexTradeAPI \<Rightarrow> 'j world \<Rightarrow> 'j outcome" where
  "get_symbols getitem self w =
     (case make_request self w ''GET'' ''/public/symbols'' None False of
        (Inl e, self', w') \<Rightarrow> (Inl e, self', w')
      | (Inr response, self', w') \<Rightarrow>
          (case getitem response ''data'' of
             None \<Rightarrow> (Inl (KeyError ''data''), self', w')
           | Some d \<Rightarrow> (Inr d, self', w')))"

definition get_ticker :: "DexTradeAPI \<Rightarrow> 'j world \<Rightarrow> string \<Rightarrow> 'j outcome" where
  "get_ticker self w pair =
     (let (a, w1) = new_dict [(''pair'', Scalar (PStr pair))] w
      in make_request self w1 ''GET'' ''/public/ticker'' (Some a) False)"

definition get_order_book :: "DexTradeAPI \<Rightarrow> 'j world \<Rightarrow> string \<Rightarrow> 'j outcome" where
  "get_order_book self w pair =
     (let (a, w1) = new_dict [(''pair'', Scalar (PStr pair))] w
      in make_request self w1 ''GET'' ''/public/book'' (Some a) False)"

definition get_trade_history :: "DexTradeAPI \<Rightarrow> 'j world \<Rightarrow> string \<Rightarrow> 'j outcome" where
  "get_trade_history self w pair =
     (let (a, w1) = new_dict [(''pair'', Scalar (PStr pair))] w
      in make_request self w1 ''GET'' ''/public/trades'' (Some a) False)"

text \<open>
  \<open>create_order\<close>: \<open>volume\<close>, \<open>rate\<close> and \<open>stop_rate\<close> are floats, of which the client
  uses \<open>str\<close> alone; \<open>fstr\<close> is \<open>str\<close> on floats.
\<close>

definition add_rate ::
  "('f \<Rightarrow> string) \<Rightarrow> addr \<Rightarrow> TradeType \<Rightarrow> 'f option \<Rightarrow> 'j world \<Rightarrow> error + 'j world" where
  "add_rate fstr a type_trade rate w =
     (if type_trade \<in> set [LIMIT, STOP_LIMIT] then
        (case rate of
           None \<Rightarrow> Inl (ValueError ''Rate is required for LIMIT and STOP_LIMIT orders'')
         | Some r \<Rightarrow> Inr (set_item a ''rate'' (Scalar (PStr (fstr r))) w))
      else Inr w)"

definition add_stop_rate ::
  "('f \<Rightarrow> string) \<Rightarrow> addr \<Rightarrow> TradeType \<Rightarrow> 'f option \<Rightarrow> 'j world \<Rightarrow> error + 'j world" where
  "add_stop_rate fstr a type_trade stop_rate w =
     (if type_trade = STOP_LIMIT then
        (case stop_rate of
           None \<Rightarrow> Inl (ValueError ''Stop rate is required for STOP_LIMIT orders'')
         | Some r \<Rightarrow> Inr (set_item a ''stop_rate'' (Scalar (PStr (fstr r))) w))
      else Inr w)"

definition create_order ::
  "('f \<Rightarrow> string) \<Rightarrow> DexTradeAPI \<Rightarrow> 'j world \<Rightarrow> string \<Rightarrow> TradeType \<Rightarrow> OrderType \<Rightarrow> 'f \<Rightarrow>
   'f option \<Rightarrow> 'f option \<Rightarrow> 'j outcome" where
  "create_order fstr self w pair type_trade order_type volume rate stop_rate =
     (let (a, w1) = new_dict
            [(''pair'', Scalar (PStr pair)),
             (''type_trade'', Scalar (PInt (TradeType_value type_trade))),
             (''type'', Scalar (PInt (OrderType_value order_type))),
             (''volume'', Scalar (PStr (fstr volume)))] w
      in case add_rate fstr a type_trade rate w1 of
           Inl e \<Rightarrow> (Inl e, self, w1)
         | Inr w2 \<Rightarrow>
             (case add_stop_rate fstr a type_trade stop_rate w2 of
                Inl e \<Rightarrow> (Inl e, self, w2)
              | Inr w3 \<Rightarrow> make_request self w3 ''POST'' ''/private/create-order'' (Some a) True))"

definition get_active_orders :: "DexTradeAPI \<Rightarrow> 'j world \<Rightarrow> 'j outcome" where
  "get_active_orders self w =
     (let (a, w1) = new_dict [] w
      in make_request self w1 ''POST'' ''/private/orders'' (Some a) True)"

definition get_order :: "DexTradeAPI \<Rightarrow> 'j world \<Rightarrow> int \<Rightarrow> 'j outcome" where
  "get_order self w order_id =
     (let (a, w1) = new_dict [(''order_id'', Scalar (PStr (str_int order_id)))] w
      in make_request self w1 ''POST'' ''/private/get-order'' (Some a) True)"

definition cancel_order :: "DexTradeAPI \<Rightarrow> 'j world \<Rightarrow> int \<Rightarrow> 'j outcome" where
  "cancel_order self w order_id =
     (let (a, w1) = new_dict [(''order_id'', Scalar (PStr (str_int order_id)))] w
      in make_request self w1 ''POST'' ''/private/delete-order'' (Some a) True)"

definition get_balances :: "DexTradeAPI \<Rightarrow> 'j world \<Rightarrow> 'j outcome" where
  "get_balances self w =
     (let (a, w1) = new_dict [] w
      in make_request self w1 ''POST'' ''/private/balances'' (Some a) True)"

definition get_deposit_address ::
  "DexTradeAPI \<Rightarrow> 'j world \<Rightarrow> string \<Rightarrow> string option \<Rightarrow> bool \<Rightarrow> 'j outcome" where
  "get_deposit_address self w currency network new =
     (let (a, w1) = new_dict
            [(''iso'', Scalar (PStr currency)), (''new'', Scalar (PInt (if new then 1 else 0)))] w;
          w2 = (if truthy_str network then set_item a ''network'' (Scalar (PStr (the network))) w1
                else w1)
      in make_request self w2 ''POST'' ''/private/get-address'' (Some a) True)"

section \<open>The signing engine as the specification words it\<close>

text \<open>
  The specification of \<open>sign\<close>: the entries in ascending order of their keys; a scalar gives
  its string form, a nested mapping the string forms of its values in the order of the
  nested keys; the strings are joined without separator and the secret comes last.
\<close>

fun value_strings :: "pyvalue \<Rightarrow> string list" where
  "value_strings (Dict d) = map (\<lambda>(k, v). str v) (sort_key fst d)"
| "value_strings (Scalar v) = [str v]"

definition joined_values :: "pdict \<Rightarrow> string" where
  "joined_values params = concat (concat (map (\<lambda>(k, v). value_strings v) (sort_key fst params)))"

definition signing_string :: "pdict \<Rightarrow> string \<Rightarrow> string" where
  "signing_string params key = joined_values params @ key"

text \<open>
  A list of pairs is a dict when its keys differ; a Parameter Set is a dict whose nested
  values are dicts.
\<close>

fun wf_value :: "pyvalue \<Rightarrow> bool" where
  "wf_value (Dict d) = distinct (map fst d)"
| "wf_value (Scalar v) = True"

definition wf_params :: "pdict \<Rightarrow> bool" where
  "wf_params params = (distinct (map fst params) \<and> list_all (\<lambda>(k, v). wf_value v) params)"

text \<open>
  Two Parameter Sets hold the same key-value pairs when each key of one is a key of the
  other with the same value; two nested dicts are the same value when they hold the
  same pairs, in whatever order.
\<close>

fun same_value :: "pyvalue \<Rightarrow> pyvalue \<Rightarrow> bool" where
  "same_value (Dict d) (Dict e) = (set d = set e)"
| "same_value (Scalar a) (Scalar b) = (a = b)"
| "same_value _ _ = False"

definition same_pairs :: "pdict \<Rightarrow> pdict \<Rightarrow> bool" where
  "same_pairs p q =
     (list_all (\<lambda>(k, v). list_ex (\<lambda>(k', v'). k' = k \<and> same_value v v') q) p \<and>
      list_all (\<lambda>(k', v'). list_ex (\<lambda>(k, v). k = k' \<and> same_value v v') p) q)"

section \<open>Notions used to state the properties of the dispatcher\<close>

text \<open>
  The content of the \<open>params\<close> argument (empty when it is \<open>None\<close>); that content with
  a \<open>request_id\<close> of the time \<open>t\<close> when it has none; an argument that is \<open>None\<close> or
  the address of an object; the three parts of an outcome.
\<close>

definition params_dict :: "'j world \<Rightarrow> addr option \<Rightarrow> pdict" where
  "params_dict w params = (case params of None \<Rightarrow> [] | Some a \<Rightarrow> heap w ! a)"

definition with_request_id :: "pdict \<Rightarrow> int \<Rightarrow> pdict" where
  "with_request_id d t =
     (if has_key ''request_id'' d then d
      else d @ [(''request_id'', Scalar (PStr (str_int t)))])"

definition valid_params :: "'j world \<Rightarrow> addr option \<Rightarrow> bool" where
  "valid_params w params = (case params of None \<Rightarrow> True | Some a \<Rightarrow> a < length (heap w))"

definition result_of :: "'j outcome \<Rightarrow> error + 'j" where
  "result_of out = fst out"

definition client_of :: "'j outcome \<Rightarrow> DexTradeAPI" where
  "client_of out = fst (snd out)"

definition world_of :: "'j outcome \<Rightarrow> 'j world" where
  "world_of out = snd (snd out)"

text \<open>
  A configuration with both credentials, as in the usage example of the source, and a
  world with one dict object, a clock and a server that answers 200 to every request.
\<close>

definition example_world :: "unit world" where
  "example_world =
     \<lparr>heap = [[(''order_id'', Scalar (PStr ''42''))]], clock = (\<lambda>n. 1700000000000000 + int n),
      ticks = 0, transport = (\<lambda>r. Inr \<lparr>status_code = 200, json = Some ()\<rparr>), sent = []\<rparr>"

definition example_config :: DexTradeConfig where
  "example_config = default_config\<lparr>login_token := Some ''token'', secret := Some ''secret''\<rparr>"

text \<open>The outcome of \<open>get_balances\<close> on a fresh client in that world.\<close>

definition after_balances :: "unit outcome" where
  "after_balances = get_balances (init example_config) example_world"

text \<open>
  Two states of the client with the same configuration and the same session headers,
  \<open>x-auth-sign\<close> left aside.
\<close>

definition same_but_sign :: "DexTradeAPI \<Rightarrow> DexTradeAPI \<Rightarrow> bool" where
  "same_but_sign self self' =
     (config self' = config self \<and>
      (session_headers self')(''x-auth-sign'' := None) = (session_headers self)(''x-auth-sign'' := None))"

section \<open>Properties of the signing engine\<close>

lemma dict_set_new: "k \<notin> fst ` set d \<Longrightarrow> dict_set d k v = d @ [(k, v)]"
  by (induction d) auto

lemma fold_dict_set: "distinct (map fst (acc @ xs)) \<Longrightarrow> fold (\<lambda>(k, v) d. dict_set d k v) xs acc = acc @ xs"
proof (induction xs arbitrary: acc)
  case Nil then show ?case by simp
next
  case (Cons x xs)
  obtain k v where x: "x = (k, v)" by (cases x)
  from Cons.prems have "k \<notin> fst ` set acc" by (auto simp: x)
  then have "dict_set acc k v = acc @ [(k, v)]" by (rule dict_set_new)
  moreover from Cons.prems have "distinct (map fst ((acc @ [(k, v)]) @ xs))" by (simp add: x)
  ultimately show ?case using Cons.IH [of "acc @ [(k, v)]"] by (simp add: x)
qed

lemma dict_of_distinct: "distinct (map fst xs) \<Longrightarrow> dict_of xs = xs"
  using fold_dict_set [of "[]" xs] by (simp add: dict_of_def)

lemma distinct_keys_sorted_items: "distinct (map fst d) \<Longrightarrow> distinct (map fst (sorted_items d))"
  unfolding sorted_items_def
  by (metis distinct_map distinct_sort set_sort)

lemma dict_of_sorted_items: "distinct (map fst d) \<Longrightarrow> dict_of (sorted_items d) = sort_key fst d"
  using dict_of_distinct [OF distinct_keys_sorted_items] by (simp add: sorted_items_def)

lemma collect_value_strings: "wf_value v \<Longrightarrow> collect (k, v) acc = acc @ value_strings v"
  by (cases v) (simp_all add: dict_of_sorted_items)

lemma fold_collect:
  "list_all (\<lambda>(k, v). wf_value v) xs \<Longrightarrow>
   fold collect xs acc = acc @ concat (map (\<lambda>(k, v). value_strings v) xs)"
proof (induction xs arbitrary: acc)
  case Nil then show ?case by simp
next
  case (Cons x xs)
  then show ?case by (cases x) (simp add: collect_value_strings)
qed

lemma list_all_sort_key: "list_all P (sort_key f xs) = list_all P xs"
  by (simp add: list_all_iff)

lemma generate_signature_signing_string:
  assumes "wf_params params" and "secret cfg = Some key" and "key \<noteq> []"
  shows "generate_signature cfg params = Inr (sha256_hexdigest (signing_string params key))"
proof -
  from assms(1) have d: "distinct (map fst params)" and a: "list_all (\<lambda>(k, v). wf_value v) params"
    by (simp_all add: wf_params_def)
  have "fold collect (sort_key fst params) [] = concat (map (\<lambda>(k, v). value_strings v) (sort_key fst params))"
    using fold_collect [of "sort_key fst params" "[]"] a by (simp add: list_all_sort_key)
  then show ?thesis
    using assms(2,3) d by (simp add: generate_signature_def dict_of_sorted_items signing_string_def joined_values_def)
qed

lemma hex_char_in: "hex_char n \<in> set ''0123456789abcdef''"
proof -
  have "n mod 16 < length ''0123456789abcdef''" by simp
  then show ?thesis unfolding hex_char_def by (rule nth_mem)
qed

lemma length_hex32: "length (hex32 w) = 8"
  by (simp add: hex32_def)

lemma set_hex32: "set (hex32 w) \<subseteq> set ''0123456789abcdef''"
  unfolding hex32_def using hex_char_in by auto

lemma length_hexdigest: "length (hexdigest hs) = 64"
  by (cases hs rule: hexdigest.cases) (simp add: length_hex32)

lemma set_hexdigest: "set (hexdigest hs) \<subseteq> set ''0123456789abcdef''"
proof (cases hs rule: hexdigest.cases)
  case (1 a b c d e f g h)
  show ?thesis unfolding 1 hexdigest.simps set_append
    using set_hex32 by blast
qed

lemma sha256_hexdigest_format:
  "length (sha256_hexdigest s) = 64 \<and> set (sha256_hexdigest s) \<subseteq> set ''0123456789abcdef''"
  unfolding sha256_hexdigest_def using length_hexdigest set_hexdigest by blast

subsection \<open>A test vector of SHA-256\<close>

text \<open>
  The test vector \<open>"abc"\<close> of the standard, computed step by step: the padded block, its
  sixteen words, the message schedule, the sixty-four rounds, the digest.
\<close>

lemma upt_8: "[0..<8::nat] = [0, 1, 2, 3, 4, 5, 6, 7]"
  by code_simp

lemma abc_blocks:
  "blocks (sha256_pad (map of_char ''abc'')) =
    [[0x61, 0x62, 0x63, 0x80, 0x00, 0x00, 0x00, 0x00, 0x00, 0x00, 0x00, 0x00, 0x00, 0x00, 0x00, 0x00,
     0x00, 0x00, 0x00, 0x00, 0x00, 0x00, 0x00, 0x00, 0x00, 0x00, 0x00, 0x00, 0x00, 0x00, 0x00, 0x00,
     0x00, 0x00, 0x00, 0x00, 0x00, 0x00, 0x00, 0x00, 0x00, 0x00, 0x00, 0x00, 0x00, 0x00, 0x00, 0x00,
     0x00, 0x00, 0x00, 0x00, 0x00, 0x00, 0x00, 0x00, 0x00, 0x00, 0x00, 0x00, 0x00, 0x00, 0x00, 0x18]]"
  by code_simp

lemma abc_block_words:
  "block_words
    [0x61, 0x62, 0x63, 0x80, 0x00, 0x00, 0x00, 0x00, 0x00, 0x00, 0x00, 0x00, 0x00, 0x00, 0x00, 0x00,
     0x00, 0x00, 0x00, 0x00, 0x00, 0x00, 0x00, 0x00, 0x00, 0x00, 0x00, 0x00, 0x00, 0x00, 0x00, 0x00,
     0x00, 0x00, 0x00, 0x00, 0x00, 0x00, 0x00, 0x00, 0x00, 0x00, 0x00, 0x00, 0x00, 0x00, 0x00, 0x00,
     0x00, 0x00, 0x00, 0x00, 0x00, 0x00, 0x00, 0x00, 0x00, 0x00, 0x00, 0x00, 0x00, 0x00, 0x00, 0x18] =
    [0x61626380, 0x00000000, 0x00000000, 0x00000000, 0x00000000, 0x00000000, 0x00000000, 0x00000000,
     0x00000000, 0x00000000, 0x00000000, 0x00000000, 0x00000000, 0x00000000, 0x00000000, 0x00000018]"
  by code_simp

lemma abc_schedule:
  "schedule 48
    [0x61626380, 0x00000000, 0x00000000, 0x00000000, 0x00000000, 0x00000000, 0x00000000, 0x00000000,
     0x00000000, 0x00000000, 0x00000000, 0x00000000, 0x00000000, 0x00000000, 0x00000000, 0x00000018] =
    [0x61626380, 0x00000000, 0x00000000, 0x00000000, 0x00000000, 0x00000000, 0x00000000, 0x00000000,
     0x00000000, 0x00000000, 0x00000000, 0x00000000, 0x00000000, 0x00000000, 0x00000000, 0x00000018,
     0x61626380, 0x000F0000, 0x7DA86405, 0x600003C6, 0x3E9D7B78, 0x0183FC00, 0x12DCBFDB, 0xE2E2C38E,
     0xC8215C1A, 0xB73679A2, 0xE5BC3909, 0x32663C5B, 0x9D209D67, 0xEC8726CB, 0x702138A4, 0xD3B7973B,
     0x93F5997F, 0x3B68BA73, 0xAFF4FFC1, 0xF10A5C62, 0x0A8B3996, 0x72AF830A, 0x9409E33E, 0x24641522,
     0x9F47BF94, 0xF0A64F5A, 0x3E246A79, 0x27333BA3, 0x0C4763F2, 0x840ABF27, 0x7A290D5D, 0x065C43DA,
     0xFB3E89CB, 0xCC7617DB, 0xB9E66C34, 0xA9993667, 0x84BADEDD, 0xC21462BC, 0x1487472C, 0xB20F7A99,
     0xEF57B9CD, 0xEBE6B238, 0x9FE3095E, 0x78BC8D4B, 0xA43FCF15, 0x668B2FF8, 0xEEABA2CC, 0x12B1EDEB]"
  by code_simp

lemma abc_rounds:
  "fold sha256_round (zip
    [0x61626380, 0x00000000, 0x00000000, 0x00000000, 0x00000000, 0x00000000, 0x00000000, 0x00000000,
     0x00000000, 0x00000000, 0x00000000, 0x00000000, 0x00000000, 0x00000000, 0x00000000, 0x00000018,
     0x61626380, 0x000F0000, 0x7DA86405, 0x600003C6, 0x3E9D7B78, 0x0183FC00, 0x12DCBFDB, 0xE2E2C38E,
     0xC8215C1A, 0xB73679A2, 0xE5BC3909, 0x32663C5B, 0x9D209D67, 0xEC8726CB, 0x702138A4, 0xD3B7973B,
     0x93F5997F, 0x3B68BA73, 0xAFF4FFC1, 0xF10A5C62, 0x0A8B3996, 0x72AF830A, 0x9409E33E, 0x24641522,
     0x9F47BF94, 0xF0A64F5A, 0x3E246A79, 0x27333BA3, 0x0C4763F2, 0x840ABF27, 0x7A290D5D, 0x065C43DA,
     0xFB3E89CB, 0xCC7617DB, 0xB9E66C34, 0xA9993667, 0x84BADEDD, 0xC21462BC, 0x1487472C, 0xB20F7A99,
     0xEF57B9CD, 0xEBE6B238, 0x9FE3095E, 0x78BC8D4B, 0xA43FCF15, 0x668B2FF8, 0xEEABA2CC, 0x12B1EDEB] K256) H256 =
    (0x506E3058, 0xD39A2165, 0x04D24D6C, 0xB85E2CE9,
     0x5EF50F24, 0xFB121210, 0x948D25B6, 0x961F4894)"
  by code_simp

lemma abc_sha256:
  "sha256 (map of_char ''abc'') =
    (0xBA7816BF, 0x8F01CFEA, 0x414140DE, 0x5DAE2223,
     0xB00361A3, 0x96177A9C, 0xB410FF61, 0xF20015AD)"
proof -
  have "compress
    [0x61, 0x62, 0x63, 0x80, 0x00, 0x00, 0x00, 0x00, 0x00, 0x00, 0x00, 0x00, 0x00, 0x00, 0x00, 0x00,
     0x00, 0x00, 0x00, 0x00, 0x00, 0x00, 0x00, 0x00, 0x00, 0x00, 0x00, 0x00, 0x00, 0x00, 0x00, 0x00,
     0x00, 0x00, 0x00, 0x00, 0x00, 0x00, 0x00, 0x00, 0x00, 0x00, 0x00, 0x00, 0x00, 0x00, 0x00, 0x00,
     0x00, 0x00, 0x00, 0x00, 0x00, 0x00, 0x00, 0x00, 0x00, 0x00, 0x00, 0x00, 0x00, 0x00, 0x00, 0x18] H256 =
    (0xBA7816BF, 0x8F01CFEA, 0x414140DE, 0x5DAE2223,
     0xB00361A3, 0x96177A9C, 0xB410FF61, 0xF20015AD)"
    unfolding compress_def abc_block_words abc_schedule abc_rounds
    by (simp only: H256_def add_state.simps) simp
  then show ?thesis
    unfolding sha256_def abc_blocks by simp
qed

lemma sha256_hexdigest_abc:
  "sha256_hexdigest ''abc'' = ''ba7816bf8f01cfea414140de5dae2223b00361a396177a9cb410ff61f20015ad''"
  unfolding sha256_hexdigest_def abc_sha256 hexdigest.simps hex32_def
  by (simp add: hex_char_def drop_bit_eq_div upt_8)

lemma distinct_keys_distinct: "distinct (map fst d) \<Longrightarrow> distinct d"
  by (simp add: distinct_map)

lemma sort_key_same_set:
  assumes "distinct (map fst d)" and "distinct (map fst e)" and "set d = set e"
  shows "sort_key fst d = sort_key fst e"
proof (rule sort_key_eq_sort_key)
  from assms show "mset d = mset e"
    by (simp add: set_eq_iff_mset_eq_distinct [symmetric] distinct_keys_distinct)
  from assms(1) show "inj_on fst (set d)" by (simp add: distinct_map)
qed

lemma same_value_strings:
  assumes wf: "wf_value v" "wf_value v'" and sv: "same_value v v'"
  shows "value_strings v = value_strings v'"
proof (cases v)
  case (Scalar a)
  with sv show ?thesis by (cases v') simp_all
next
  case (Dict d)
  from sv Dict obtain e where e: "v' = Dict e" by (cases v') simp_all
  from wf sv have "sort_key fst d = sort_key fst e"
    unfolding Dict e by (intro sort_key_same_set) simp_all
  then show ?thesis by (simp add: Dict e)
qed

lemma same_pairs_keys: "same_pairs p q \<Longrightarrow> fst ` set p = fst ` set q"
  unfolding same_pairs_def list_all_iff list_ex_iff by force

lemma same_pairs_value:
  assumes "same_pairs p q" and "distinct (map fst q)" and "(k, v) \<in> set p" and "(k, v') \<in> set q"
  shows "same_value v v'"
proof -
  from assms(1,3) obtain v'' where "(k, v'') \<in> set q" and sv: "same_value v v''"
    unfolding same_pairs_def list_all_iff list_ex_iff by fastforce
  with assms(2,4) have "v'' = v'" by (meson eq_key_imp_eq_value)
  with sv show ?thesis by simp
qed

lemma wf_params_value: "wf_params p \<Longrightarrow> (k, v) \<in> set p \<Longrightarrow> wf_value v"
  unfolding wf_params_def list_all_iff by auto

lemma sorted_keys_eq:
  fixes p q :: "(string \<times> 'v) list"
  assumes "distinct (map fst p)" and "distinct (map fst q)" and "fst ` set p = fst ` set q"
  shows "map fst (sort_key fst p) = map fst (sort_key fst q)"
proof (rule sorted_distinct_set_unique)
  show "sorted (map fst (sort_key fst p))" "sorted (map fst (sort_key fst q))" by simp_all
  from assms(1) show "distinct (map fst (sort_key fst p))"
    using distinct_keys_sorted_items [of p] by (simp add: sorted_items_def)
  from assms(2) show "distinct (map fst (sort_key fst q))"
    using distinct_keys_sorted_items [of q] by (simp add: sorted_items_def)
  from assms(3) show "set (map fst (sort_key fst p)) = set (map fst (sort_key fst q))" by simp
qed

lemma same_pairs_joined_values:
  assumes "wf_params p" and "wf_params q" and "same_pairs p q"
  shows "joined_values p = joined_values q"
proof -
  let ?P = "sort_key fst p" and ?Q = "sort_key fst q"
  from assms have dp: "distinct (map fst p)" and dq: "distinct (map fst q)"
    by (simp_all add: wf_params_def)
  have keys: "map fst ?P = map fst ?Q"
    using dp dq same_pairs_keys [OF assms(3)] by (rule sorted_keys_eq)
  then have len: "length ?P = length ?Q" by (metis length_map)
  have "map (\<lambda>(k, v). value_strings v) ?P = map (\<lambda>(k, v). value_strings v) ?Q"
  proof (rule nth_equalityI)
    show "length (map (\<lambda>(k, v). value_strings v) ?P) = length (map (\<lambda>(k, v). value_strings v) ?Q)"
      using len by simp
  next
    fix i assume "i < length (map (\<lambda>(k, v). value_strings v) ?P)"
    then have i: "i < length ?P" "i < length ?Q" using len by simp_all
    obtain k v where pi: "?P ! i = (k, v)" by (cases "?P ! i")
    obtain k' v' where qi: "?Q ! i = (k', v')" by (cases "?Q ! i")
    from keys i have "fst (?P ! i) = fst (?Q ! i)" by (metis nth_map)
    with pi qi have kk: "k' = k" by simp
    from i pi have inp: "(k, v) \<in> set p" by (metis nth_mem set_sort)
    from i qi kk have inq: "(k, v') \<in> set q" by (metis nth_mem set_sort)
    have "same_value v v'" using assms(3) dq inp inq by (rule same_pairs_value)
    moreover have "wf_value v" "wf_value v'"
      using assms(1,2) inp inq by (auto dest: wf_params_value)
    ultimately have "value_strings v = value_strings v'" by (simp add: same_value_strings)
    then show "map (\<lambda>(k, v). value_strings v) ?P ! i = map (\<lambda>(k, v). value_strings v) ?Q ! i"
      using i pi qi by simp
  qed
  then show ?thesis by (simp add: joined_values_def)
qed

section \<open>Claims on the signing engine\<close>

text \<open>
  C1. For every Parameter Set (string keys, values that are scalars or dicts of scalars)
  and every non-empty secret, \<open>_generate_signature\<close> returns the SHA-256 digest, as 64
  lowercase hexadecimal digits, of the string made of the values in ascending order of the
  top-level keys, a nested dict giving the string forms of its values in the order of its
  own keys and none of its keys, joined without separator, with the secret appended. In
  particular \<open>{"a": {"y": "2", "x": "1"}, "b": "3"}\<close> hashes \<open>"1" + "2" + "3" + secret\<close>.
\<close>

theorem generate_signature_is_sha256_of_sorted_values:
  assumes "wf_params params" and "secret cfg = Some key" and "key \<noteq> []"
  shows "generate_signature cfg params = Inr (sha256_hexdigest (signing_string params key)) \<and>
         length (sha256_hexdigest (signing_string params key)) = 64 \<and>
         set (sha256_hexdigest (signing_string params key)) \<subseteq> set ''0123456789abcdef'' \<and>
         generate_signature cfg
           [(''a'', Dict [(''y'', PStr ''2''), (''x'', PStr ''1'')]), (''b'', Scalar (PStr ''3''))] =
           Inr (sha256_hexdigest (''1'' @ ''2'' @ ''3'' @ key))"
proof -
  let ?ex = "[(''a'', Dict [(''y'', PStr ''2''), (''x'', PStr ''1'')]), (''b'', Scalar (PStr ''3''))]"
  have "wf_params ?ex" by (simp add: wf_params_def)
  then have "generate_signature cfg ?ex = Inr (sha256_hexdigest (signing_string ?ex key))"
    using assms(2,3) by (rule generate_signature_signing_string)
  moreover have "signing_string ?ex key = ''1'' @ ''2'' @ ''3'' @ key"
    by (simp add: signing_string_def joined_values_def)
  ultimately show ?thesis
    using generate_signature_signing_string [OF assms] sha256_hexdigest_format by simp
qed

theorem generate_signature_is_sha256_of_sorted_values_witness:
  "generate_signature (default_config\<lparr>secret := Some ''k3y''\<rparr>)
     [(''volume'', Scalar (PStr ''0.5'')), (''pair'', Scalar (PStr ''BTCUSDT'')),
      (''meta'', Dict [(''z'', PInt 7), (''m'', PBool True)]), (''type'', Scalar (PInt 0))] =
   Inr (sha256_hexdigest ''True7BTCUSDT00.5k3y'')"
proof -
  let ?p = "[(''volume'', Scalar (PStr ''0.5'')), (''pair'', Scalar (PStr ''BTCUSDT'')),
      (''meta'', Dict [(''z'', PInt 7), (''m'', PBool True)]), (''type'', Scalar (PInt 0))]"
  have wf: "wf_params ?p" by (simp add: wf_params_def)
  have s: "secret (default_config\<lparr>secret := Some ''k3y''\<rparr>) = Some ''k3y''" by simp
  have k: "''k3y'' \<noteq> []" by simp
  have "signing_string ?p ''k3y'' = ''True7BTCUSDT00.5k3y''"
    by (simp add: signing_string_def joined_values_def str_int_def str_nat.simps digit_char_def)
  then show ?thesis
    using generate_signature_is_sha256_of_sorted_values [OF wf s k] by simp
qed

text \<open>
  C2. Two Parameter Sets that hold the same key-value pairs in different insertion orders
  (nested dicts included) get the same result from \<open>_generate_signature\<close> under the
  same configuration.
\<close>

theorem generate_signature_order_independent:
  assumes "wf_params p" and "wf_params q" and "same_pairs p q"
  shows "generate_signature cfg p = generate_signature cfg q"
proof (cases "truthy_str (secret cfg)")
  case False
  then show ?thesis by (simp add: generate_signature_def)
next
  case True
  then obtain key where key: "secret cfg = Some key" "key \<noteq> []"
    by (cases "secret cfg") simp_all
  have "signing_string p key = signing_string q key"
    using same_pairs_joined_values [OF assms] by (simp add: signing_string_def)
  then show ?thesis
    using generate_signature_signing_string [OF assms(1) key]
      generate_signature_signing_string [OF assms(2) key] by simp
qed

theorem generate_signature_order_independent_witness:
  "generate_signature (default_config\<lparr>secret := Some ''s''\<rparr>)
     [(''b'', Scalar (PStr ''2'')), (''a'', Scalar (PStr ''1'')), (''n'', Dict [(''y'', PInt 2), (''x'', PInt 1)])] =
   generate_signature (default_config\<lparr>secret := Some ''s''\<rparr>)
     [(''n'', Dict [(''x'', PInt 1), (''y'', PInt 2)]), (''a'', Scalar (PStr ''1'')), (''b'', Scalar (PStr ''2''))]"
proof (rule generate_signature_order_independent)
  show "wf_params [(''b'', Scalar (PStr ''2'')), (''a'', Scalar (PStr ''1'')), (''n'', Dict [(''y'', PInt 2), (''x'', PInt 1)])]"
    by (simp add: wf_params_def)
  show "wf_params [(''n'', Dict [(''x'', PInt 1), (''y'', PInt 2)]), (''a'', Scalar (PStr ''1'')), (''b'', Scalar (PStr ''2''))]"
    by (simp add: wf_params_def)
  show "same_pairs [(''b'', Scalar (PStr ''2'')), (''a'', Scalar (PStr ''1'')), (''n'', Dict [(''y'', PInt 2), (''x'', PInt 1)])]
     [(''n'', Dict [(''x'', PInt 1), (''y'', PInt 2)]), (''a'', Scalar (PStr ''1'')), (''b'', Scalar (PStr ''2''))]"
    by (simp add: same_pairs_def insert_commute)
qed

text \<open>
  C7 as stated (any two distinct Parameter Sets have different signing inputs and
  different signatures) fails: the keys do not enter the signing input and the values
  are joined without separator. Renaming the key \<open>a\<close> to \<open>b\<close> keeps the signing input and
  the signature, and so does moving a digit from one value to the next.
\<close>

theorem renamed_key_same_signature:
  "[(''a'', Scalar (PStr ''1''))] \<noteq> [(''b'', Scalar (PStr ''1''))] \<and>
   signing_string [(''a'', Scalar (PStr ''1''))] ''secret'' =
     signing_string [(''b'', Scalar (PStr ''1''))] ''secret'' \<and>
   generate_signature example_config [(''a'', Scalar (PStr ''1''))] =
     generate_signature example_config [(''b'', Scalar (PStr ''1''))] \<and>
   generate_signature example_config
     [(''amount'', Scalar (PStr ''10'')), (''price'', Scalar (PStr ''5''))] =
     generate_signature example_config
       [(''amount'', Scalar (PStr ''1'')), (''price'', Scalar (PStr ''05''))]"
  by (simp add: signing_string_def joined_values_def generate_signature_def example_config_def
      default_config_def sorted_items_def dict_of_def)

text \<open>
  C7, amended. The signature binds the joined value strings and nothing else of the
  Parameter Set: under a non-empty secret two Parameter Sets have the same signing input
  exactly when the concatenations of their value strings (entries in ascending key order,
  nested values in the order of the nested keys) are equal, and then they have the same
  signature.
\<close>

theorem signature_binds_joined_values:
  assumes "wf_params p" and "wf_params q" and "secret cfg = Some key" and "key \<noteq> []"
  shows "(signing_string p key = signing_string q key \<longleftrightarrow> joined_values p = joined_values q) \<and>
         (joined_values p = joined_values q \<longrightarrow> generate_signature cfg p = generate_signature cfg q)"
  using generate_signature_signing_string [OF assms(1,3,4)]
    generate_signature_signing_string [OF assms(2,3,4)]
  by (simp add: signing_string_def)

theorem signature_binds_joined_values_witness:
  "joined_values [(''to'', Scalar (PStr ''bob'')), (''amount'', Scalar (PInt 10))] = ''10bob'' \<and>
   joined_values [(''amount'', Scalar (PInt 1)), (''memo'', Scalar (PStr ''0bob''))] = ''10bob'' \<and>
   generate_signature example_config [(''to'', Scalar (PStr ''bob'')), (''amount'', Scalar (PInt 10))] =
   generate_signature example_config [(''amount'', Scalar (PInt 1)), (''memo'', Scalar (PStr ''0bob''))]"
proof -
  let ?p = "[(''to'', Scalar (PStr ''bob'')), (''amount'', Scalar (PInt 10))]"
  let ?q = "[(''amount'', Scalar (PInt 1)), (''memo'', Scalar (PStr ''0bob''))]"
  have p: "joined_values ?p = ''10bob''" and q: "joined_values ?q = ''10bob''"
    by (simp_all add: joined_values_def str_int_def str_nat.simps digit_char_def)
  have wf: "wf_params ?p" "wf_params ?q" by (simp_all add: wf_params_def)
  have s: "secret example_config = Some ''secret''" "''secret'' \<noteq> []"
    by (simp_all add: example_config_def)
  from signature_binds_joined_values [OF wf s] p q show ?thesis by simp
qed

section \<open>Properties of the dispatcher\<close>

lemma or_new_dict_kept: "heap w ! a \<noteq> [] \<Longrightarrow> or_new_dict (Some a) w = (a, w)"
  by (simp add: or_new_dict_def)

lemma or_new_dict_fresh:
  "params_dict w params = [] \<Longrightarrow>
   or_new_dict params w = (length (heap w), w\<lparr>heap := heap w @ [[]]\<rparr>)"
  by (cases params) (simp_all add: or_new_dict_def params_dict_def new_dict_def)

lemma ensure_request_id_present:
  "has_key ''request_id'' (heap w ! a) \<Longrightarrow> ensure_request_id a w = w"
  by (simp add: ensure_request_id_def)

lemma ensure_request_id_absent:
  "\<not> has_key ''request_id'' (heap w ! a) \<Longrightarrow>
   ensure_request_id a w =
     w\<lparr>ticks := Suc (ticks w),
       heap := (heap w)[a := heap w ! a @ [(''request_id'', Scalar (PStr (str_int (clock w (ticks w)))))]]\<rparr>"
  by (simp add: ensure_request_id_def time_us_def set_item_def has_key_def dict_set_new)

text \<open>The dict that a private dispatch signs and sends, and where it lies.\<close>

lemma private_prepare:
  assumes "valid_params w params"
  shows "\<exists>a w1. or_new_dict params w = (a, w1) \<and>
           a < length (heap (ensure_request_id a w1)) \<and>
           heap (ensure_request_id a w1) ! a =
             with_request_id (params_dict w params) (clock w (ticks w)) \<and>
           sent (ensure_request_id a w1) = sent w \<and>
           transport (ensure_request_id a w1) = transport w \<and>
           clock (ensure_request_id a w1) = clock w \<and>
           ticks (ensure_request_id a w1) =
             (if has_key ''request_id'' (params_dict w params) then ticks w else Suc (ticks w))"
proof (cases "params_dict w params = []")
  case True
  let ?w1 = "w\<lparr>heap := heap w @ [[]]\<rparr>"
  have o: "or_new_dict params w = (length (heap w), ?w1)" using True by (rule or_new_dict_fresh)
  have nk: "\<not> has_key ''request_id'' (heap ?w1 ! length (heap w))" by (simp add: has_key_def)
  show ?thesis
    by (simp add: o ensure_request_id_absent [OF nk] True with_request_id_def has_key_def)
next
  case False
  then obtain a where p: "params = Some a" and ne: "heap w ! a \<noteq> []"
    by (cases params) (simp_all add: params_dict_def)
  from assms p have v: "a < length (heap w)" by (simp add: valid_params_def)
  have o: "or_new_dict (Some a) w = (a, w)" using ne by (rule or_new_dict_kept)
  show ?thesis
  proof (cases "has_key ''request_id'' (heap w ! a)")
    case True
    show ?thesis
      by (simp add: o ensure_request_id_present [OF True] p v True with_request_id_def params_dict_def)
  next
    case nk: False
    show ?thesis
      by (simp add: o ensure_request_id_absent [OF nk] p v nk with_request_id_def params_dict_def)
  qed
qed

lemma send_sent:
  "\<exists>r w'. send self w method url params = (r, self, w') \<and> heap w' = heap w \<and>
     ticks w' = ticks w \<and> clock w' = clock w \<and> transport w' = transport w \<and>
     sent w' = sent w @ [\<lparr>req_verb = (if method = ''GET'' then GET else POST), req_url = url,
                          req_params = map_option (\<lambda>a. heap w ! a) params,
                          req_headers = session_headers self\<rparr>]"
  by (simp add: send_def Let_def split: sum.split option.split)

lemma make_request_public: "make_request self w method endpoint params False =
   send self w method (base_url (config self) @ endpoint) params"
  by (simp add: make_request_def)

lemma make_request_no_secret:
  assumes "\<not> truthy_str (secret (config self))"
  shows "make_request self w method endpoint params True =
    (Inl (ValueError ''Secret key is required for private API calls''), self,
     ensure_request_id (fst (or_new_dict params w)) (snd (or_new_dict params w)))"
  using assms by (simp add: make_request_def generate_signature_def split: prod.split)

lemma make_request_signed:
  assumes "or_new_dict params w = (a, w1)"
    and "generate_signature (config self) (heap (ensure_request_id a w1) ! a) = Inr signature"
  shows "make_request self w method endpoint params True =
     send (self\<lparr>session_headers := (session_headers self)(''x-auth-sign'' \<mapsto> signature)\<rparr>)
       (ensure_request_id a w1) method (base_url (config self) @ endpoint) (Some a)"
  using assms by (simp add: make_request_def)

lemma generate_signature_ok:
  "truthy_str (secret cfg) \<Longrightarrow> \<exists>signature. generate_signature cfg d = Inr signature"
  by (simp add: generate_signature_def Let_def)

lemma make_request_heap:
  "\<exists>r self' w'. make_request self w method endpoint params private = (r, self', w') \<and>
     heap w' = (if private then heap (ensure_request_id (fst (or_new_dict params w)) (snd (or_new_dict params w)))
                else heap w)"
proof (cases "private")
  case False
  then show ?thesis using send_sent [of self w "method" "base_url (config self) @ endpoint" params]
    by (auto simp: make_request_public)
next
  case True
  obtain a w1 where o: "or_new_dict params w = (a, w1)" by (cases "or_new_dict params w")
  show ?thesis
  proof (cases "generate_signature (config self) (heap (ensure_request_id a w1) ! a)")
    case (Inl e)
    then show ?thesis using True o by (simp add: make_request_def)
  next
    case (Inr signature)
    show ?thesis
      using send_sent [of "self\<lparr>session_headers := (session_headers self)(''x-auth-sign'' \<mapsto> signature)\<rparr>"
          "ensure_request_id a w1" "method" "base_url (config self) @ endpoint" "Some a"]
      by (auto simp: True o make_request_signed [OF o Inr])
  qed
qed

lemma heap_or_new_dict:
  "b < length (heap w) \<Longrightarrow> or_new_dict params w = (a, w1) \<Longrightarrow>
   heap w1 ! b = heap w ! b \<and> b < length (heap w1) \<and> clock w1 = clock w \<and> ticks w1 = ticks w"
  by (auto simp: or_new_dict_def new_dict_def nth_append split: option.splits if_splits)

lemma heap_ensure_request_id:
  assumes "b < length (heap w)"
  shows "heap (ensure_request_id a w) ! b = heap w ! b \<or>
   (\<not> has_key ''request_id'' (heap w ! b) \<and> a = b \<and>
    heap (ensure_request_id a w) ! b =
      heap w ! b @ [(''request_id'', Scalar (PStr (str_int (clock w (ticks w)))))])"
proof (cases "has_key ''request_id'' (heap w ! a)")
  case True
  then show ?thesis by (simp add: ensure_request_id_present)
next
  case False
  with assms show ?thesis by (cases "a = b") (simp_all add: ensure_request_id_absent)
qed

lemma private_dispatch_outcome:
  assumes "valid_params w params"
    and "generate_signature (config self)
           (with_request_id (params_dict w params) (clock w (ticks w))) = Inr signature"
  shows "\<exists>r w'.
     make_request self w method endpoint params True =
       (r, self\<lparr>session_headers := (session_headers self)(''x-auth-sign'' \<mapsto> signature)\<rparr>, w') \<and>
     sent w' = sent w @
       [\<lparr>req_verb = (if method = ''GET'' then GET else POST),
         req_url = base_url (config self) @ endpoint,
         req_params = Some (with_request_id (params_dict w params) (clock w (ticks w))),
         req_headers = (session_headers self)(''x-auth-sign'' \<mapsto> signature)\<rparr>] \<and>
     ticks w' = (if has_key ''request_id'' (params_dict w params) then ticks w else Suc (ticks w))"
proof -
  let ?d = "with_request_id (params_dict w params) (clock w (ticks w))"
  from private_prepare [OF assms(1)] obtain a w1 where
    o: "or_new_dict params w = (a, w1)" and
    h: "heap (ensure_request_id a w1) ! a = ?d" and
    s: "sent (ensure_request_id a w1) = sent w" and
    t: "ticks (ensure_request_id a w1) =
          (if has_key ''request_id'' (params_dict w params) then ticks w else Suc (ticks w))"
    by blast
  from assms(2) have g: "generate_signature (config self) (heap (ensure_request_id a w1) ! a) = Inr signature"
    by (simp add: h)
  let ?self = "self\<lparr>session_headers := (session_headers self)(''x-auth-sign'' \<mapsto> signature)\<rparr>"
  from send_sent [of ?self "ensure_request_id a w1" "method" "base_url (config self) @ endpoint" "Some a"]
  obtain r w' where
    "send ?self (ensure_request_id a w1) method (base_url (config self) @ endpoint) (Some a) = (r, ?self, w')"
    and "ticks w' = ticks (ensure_request_id a w1)"
    and "sent w' = sent (ensure_request_id a w1) @
       [\<lparr>req_verb = (if method = ''GET'' then GET else POST),
         req_url = base_url (config self) @ endpoint,
         req_params = Some (heap (ensure_request_id a w1) ! a),
         req_headers = session_headers ?self\<rparr>]"
    by auto
  then show ?thesis by (simp add: make_request_signed [OF o g] h s t)
qed

lemma make_request_client:
  "client_of (make_request self w method endpoint params private) = self \<or>
   (private \<and> (\<exists>signature. client_of (make_request self w method endpoint params private) =
       self\<lparr>session_headers := (session_headers self)(''x-auth-sign'' \<mapsto> signature)\<rparr>))"
proof (cases "private")
  case False
  then show ?thesis
    using send_sent [of self w "method" "base_url (config self) @ endpoint" params]
    by (auto simp: make_request_public client_of_def)
next
  case True
  obtain a w1 where o: "or_new_dict params w = (a, w1)" by (cases "or_new_dict params w")
  show ?thesis
  proof (cases "generate_signature (config self) (heap (ensure_request_id a w1) ! a)")
    case (Inl e)
    then show ?thesis using True o by (simp add: make_request_def client_of_def)
  next
    case (Inr signature)
    show ?thesis
      using send_sent [of "self\<lparr>session_headers := (session_headers self)(''x-auth-sign'' \<mapsto> signature)\<rparr>"
          "ensure_request_id a w1" "method" "base_url (config self) @ endpoint" "Some a"]
      by (auto simp: True client_of_def make_request_signed [OF o Inr])
  qed
qed

lemma make_request_same_but_sign:
  "same_but_sign self (client_of (make_request self w method endpoint params private))"
  using make_request_client [of self w "method" "endpoint" params "private"]
  by (auto simp: same_but_sign_def)

lemma make_request_public_client:
  "client_of (make_request self w method endpoint params False) = self"
  using make_request_client [of self w "method" "endpoint" params False] by simp

lemma new_dict_eq: "new_dict d w = (length (heap w), w\<lparr>heap := heap w @ [d]\<rparr>)"
  by (simp add: new_dict_def)

lemma get_ticker_send:
  "get_ticker self w pair =
     send self (w\<lparr>heap := heap w @ [[(''pair'', Scalar (PStr pair))]]\<rparr>) ''GET''
       (base_url (config self) @ ''/public/ticker'') (Some (length (heap w)))"
  by (simp add: get_ticker_def new_dict_eq make_request_public)

lemma example_signature:
  "generate_signature example_config d =
     Inr (sha256_hexdigest (concat (fold collect (dict_of (sorted_items d)) []) @ ''secret''))"
  by (simp add: generate_signature_def example_config_def)

lemma public_endpoints_client:
  "client_of (get_symbols getitem self w) = self"
  "client_of (get_ticker self w pair) = self"
  "client_of (get_order_book self w pair) = self"
  "client_of (get_trade_history self w pair) = self"
proof -
  from send_sent [of self w "''GET''" "base_url (config self) @ ''/public/symbols''" None]
  obtain r w' where "send self w ''GET'' (base_url (config self) @ ''/public/symbols'') None = (r, self, w')"
    by blast
  then show "client_of (get_symbols getitem self w) = self"
    by (simp add: get_symbols_def make_request_public client_of_def split: sum.split option.split)
qed (simp_all add: get_ticker_def get_order_book_def get_trade_history_def new_dict_eq
      make_request_public_client)

lemma same_but_sign_refl: "same_but_sign self self"
  by (simp add: same_but_sign_def)

lemma private_endpoints_client:
  "same_but_sign self (client_of (create_order fstr self w pair type_trade order_type volume rate stop_rate))"
  "same_but_sign self (client_of (get_active_orders self w))"
  "same_but_sign self (client_of (get_order self w order_id))"
  "same_but_sign self (client_of (cancel_order self w order_id))"
  "same_but_sign self (client_of (get_balances self w))"
  "same_but_sign self (client_of (get_deposit_address self w currency network new))"
proof -
  show "same_but_sign self (client_of (create_order fstr self w pair type_trade order_type volume rate stop_rate))"
    by (simp add: create_order_def new_dict_eq make_request_same_but_sign split: sum.split)
       (simp add: client_of_def same_but_sign_refl)
qed (simp_all add: get_active_orders_def get_order_def cancel_order_def get_balances_def
      get_deposit_address_def new_dict_eq Let_def make_request_same_but_sign)

lemma create_order_limit:
  "create_order fstr self w pair LIMIT order_type volume (Some r) stop_rate =
     make_request self
       (w\<lparr>heap := heap w @
          [[(''pair'', Scalar (PStr pair)), (''type_trade'', Scalar (PInt 0)),
            (''type'', Scalar (PInt (OrderType_value order_type))),
            (''volume'', Scalar (PStr (fstr volume))),
            (''rate'', Scalar (PStr (fstr r)))]]\<rparr>)
       ''POST'' ''/private/create-order'' (Some (length (heap w))) True"
  by (simp add: create_order_def new_dict_eq add_rate_def add_stop_rate_def set_item_def)

lemma create_order_stop_limit:
  "create_order fstr self w pair STOP_LIMIT order_type volume (Some r) (Some sr) =
     make_request self
       (w\<lparr>heap := heap w @
          [[(''pair'', Scalar (PStr pair)), (''type_trade'', Scalar (PInt 2)),
            (''type'', Scalar (PInt (OrderType_value order_type))),
            (''volume'', Scalar (PStr (fstr volume))),
            (''rate'', Scalar (PStr (fstr r))),
            (''stop_rate'', Scalar (PStr (fstr sr)))]]\<rparr>)
       ''POST'' ''/private/create-order'' (Some (length (heap w))) True"
  by (simp add: create_order_def new_dict_eq add_rate_def add_stop_rate_def set_item_def)

lemma private_dispatch_new_dict:
  assumes "truthy_str (secret (config self))" and "d \<noteq> []" and "\<not> has_key ''request_id'' d"
  shows "\<exists>signature r self' w'.
     make_request self (w\<lparr>heap := heap w @ [d]\<rparr>) method endpoint (Some (length (heap w))) True =
       (r, self', w') \<and>
     sent w' = sent w @
       [\<lparr>req_verb = (if method = ''GET'' then GET else POST),
         req_url = base_url (config self) @ endpoint,
         req_params = Some (d @ [(''request_id'', Scalar (PStr (str_int (clock w (ticks w)))))]),
         req_headers = (session_headers self)(''x-auth-sign'' \<mapsto> signature)\<rparr>]"
proof -
  let ?w = "w\<lparr>heap := heap w @ [d]\<rparr>"
  have v: "valid_params ?w (Some (length (heap w)))" by (simp add: valid_params_def)
  have d: "with_request_id (params_dict ?w (Some (length (heap w)))) (clock ?w (ticks ?w)) =
     d @ [(''request_id'', Scalar (PStr (str_int (clock w (ticks w)))))]"
    using assms(3) by (simp add: with_request_id_def params_dict_def)
  from generate_signature_ok [OF assms(1)] obtain signature where
    "generate_signature (config self)
       (with_request_id (params_dict ?w (Some (length (heap w)))) (clock ?w (ticks ?w))) = Inr signature"
    by blast
  from private_dispatch_outcome [OF v this, of "method" "endpoint"] show ?thesis
    unfolding d by auto
qed

lemma example_time: "str_int (clock example_world (ticks example_world)) = ''1700000000000000''"
  by (simp add: example_world_def str_int_def str_nat.simps digit_char_def)

lemma after_balances_eq:
  "after_balances =
     (Inr (),
      \<lparr>config = example_config,
       session_headers = [''login-token'' \<mapsto> ''token'', ''content-type'' \<mapsto> ''application/json'',
         ''x-auth-sign'' \<mapsto> sha256_hexdigest ''1700000000000000secret'']\<rparr>,
      example_world\<lparr>heap := heap example_world @ [[], [(''request_id'', Scalar (PStr ''1700000000000000''))]],
        ticks := 1,
        sent := [\<lparr>req_verb = POST, req_url = ''https://api.dex-trade.com/v1/private/balances'',
                  req_params = Some [(''request_id'', Scalar (PStr ''1700000000000000''))],
                  req_headers = [''login-token'' \<mapsto> ''token'', ''content-type'' \<mapsto> ''application/json'',
                     ''x-auth-sign'' \<mapsto> sha256_hexdigest ''1700000000000000secret'']\<rparr>]\<rparr>)"
proof -
  have t: "str_int 1700000000000000 = ''1700000000000000''"
    by (simp add: str_int_def str_nat.simps digit_char_def)
  show ?thesis
    unfolding after_balances_def get_balances_def new_dict_eq
    by (simp add: make_request_def or_new_dict_def new_dict_eq ensure_request_id_def time_us_def
        set_item_def has_key_def example_signature send_def init_def example_world_def t
        sorted_items_def dict_of_def)
       (simp add: example_config_def default_config_def)
qed

section \<open>Claims on the dispatcher\<close>

text \<open>
  C3. With no secret configured (\<open>None\<close> or the empty string), \<open>_generate_signature\<close>
  on any Parameter Set and \<open>_make_request\<close> with \<open>private=True\<close> on any arguments raise
  the \<open>ValueError\<close> of the missing secret, and the transport has received no request more
  than before the call.
\<close>

theorem missing_secret_raises_before_transport:
  assumes "\<not> truthy_str (secret (config self))"
  shows "generate_signature (config self) d =
           Inl (ValueError ''Secret key is required for private API calls'') \<and>
         (\<exists>w'. make_request self w method endpoint params True =
                 (Inl (ValueError ''Secret key is required for private API calls''), self, w') \<and>
               sent w' = sent w)"
proof -
  have "sent (ensure_request_id a w1) = sent w1" for a and w1 :: "'a world"
    by (simp add: ensure_request_id_def time_us_def set_item_def split: prod.split)
  moreover have "sent (snd (or_new_dict params w)) = sent w"
    by (simp add: or_new_dict_def new_dict_def split: option.split)
  ultimately show ?thesis
    using assms by (simp add: make_request_no_secret generate_signature_def)
qed

theorem missing_secret_raises_before_transport_witness:
  "result_of (make_request (init default_config) example_world ''POST'' ''/private/get-order'' (Some 0) True) =
     Inl (ValueError ''Secret key is required for private API calls'') \<and>
   sent (world_of (make_request (init default_config) example_world ''POST'' ''/private/get-order'' (Some 0) True)) = []"
proof -
  have "\<not> truthy_str (secret (config (init default_config)))"
    by (simp add: init_def default_config_def)
  from missing_secret_raises_before_transport
         [OF this, of "[]" example_world "''POST''" "''/private/get-order''" "Some 0"]
  obtain w' where
    "make_request (init default_config) example_world ''POST'' ''/private/get-order'' (Some 0) True =
       (Inl (ValueError ''Secret key is required for private API calls''), init default_config, w')"
    and "sent w' = sent example_world"
    by blast
  then show ?thesis by (simp add: result_of_def world_of_def example_world_def)
qed

text \<open>
  C5. A private dispatch with a secret configured reads the clock once when the Parameter
  Set has no \<open>request_id\<close> and not at all when it has one; the Parameter Set with that
  \<open>request_id\<close> (the microsecond reading in decimal), or the caller's own, is the dict
  that is signed, and the very same dict is the one handed to the transport, with the
  signature as \<open>x-auth-sign\<close>.
\<close>

theorem request_id_fixed_before_signing:
  assumes "truthy_str (secret (config self))" and "valid_params w params"
  shows "\<exists>signature r self' w'.
     make_request self w method endpoint params True = (r, self', w') \<and>
     generate_signature (config self)
       (with_request_id (params_dict w params) (clock w (ticks w))) = Inr signature \<and>
     sent w' = sent w @
       [\<lparr>req_verb = (if method = ''GET'' then GET else POST),
         req_url = base_url (config self) @ endpoint,
         req_params = Some (with_request_id (params_dict w params) (clock w (ticks w))),
         req_headers = (session_headers self)(''x-auth-sign'' \<mapsto> signature)\<rparr>] \<and>
     ticks w' = (if has_key ''request_id'' (params_dict w params) then ticks w else Suc (ticks w))"
proof -
  from generate_signature_ok [OF assms(1)] obtain signature where
    g: "generate_signature (config self)
          (with_request_id (params_dict w params) (clock w (ticks w))) = Inr signature"
    by blast
  from private_dispatch_outcome [OF assms(2) g, of "method" "endpoint"] g
  show ?thesis by blast
qed

theorem request_id_fixed_before_signing_witness:
  "\<exists>signature.
     generate_signature example_config
       [(''order_id'', Scalar (PStr ''42'')), (''request_id'', Scalar (PStr ''1700000000000000''))] =
       Inr signature \<and>
     sent (world_of (make_request (init example_config) example_world ''POST'' ''/private/get-order'' (Some 0) True)) =
       [\<lparr>req_verb = POST, req_url = ''https://api.dex-trade.com/v1/private/get-order'',
         req_params = Some [(''order_id'', Scalar (PStr ''42'')),
                            (''request_id'', Scalar (PStr ''1700000000000000''))],
         req_headers = [''login-token'' \<mapsto> ''token'', ''content-type'' \<mapsto> ''application/json'',
                        ''x-auth-sign'' \<mapsto> signature]\<rparr>] \<and>
     ticks (world_of (make_request (init example_config) example_world ''POST'' ''/private/get-order'' (Some 0) True)) = 1"
proof -
  have 1: "truthy_str (secret (config (init example_config)))"
    by (simp add: init_def example_config_def)
  have 2: "valid_params example_world (Some 0)"
    by (simp add: valid_params_def example_world_def)
  have 3: "with_request_id (params_dict example_world (Some 0)) (clock example_world 0) =
     [(''order_id'', Scalar (PStr ''42'')), (''request_id'', Scalar (PStr ''1700000000000000''))]"
    using example_time by (simp add: with_request_id_def params_dict_def example_world_def has_key_def)
  have 4: "\<not> has_key ''request_id'' (params_dict example_world (Some 0))"
    by (simp add: params_dict_def example_world_def has_key_def)
  have 5: "config (init example_config) = example_config"
    and 6: "session_headers (init example_config) =
              [''login-token'' \<mapsto> ''token'', ''content-type'' \<mapsto> ''application/json'']"
    and 7: "base_url example_config @ ''/private/get-order'' =
              ''https://api.dex-trade.com/v1/private/get-order''"
    and 8: "sent example_world = []" "ticks example_world = 0"
    by (simp_all add: init_def example_config_def default_config_def example_world_def)
  from request_id_fixed_before_signing [OF 1 2, of "''POST''" "''/private/get-order''"]
  show ?thesis
    unfolding 5 6 7 8 by (auto simp: 3 4 world_of_def)
qed

text \<open>
  C9. A dispatch, public or private, failing or not, leaves every dict object as it was
  except for a \<open>request_id\<close> entry: each key other than \<open>request_id\<close> is bound after
  the call exactly as before it (unbound if it was unbound), and an object is unchanged
  when the call is public or when the object already had a \<open>request_id\<close>.
\<close>

theorem dispatch_changes_request_id_only:
  assumes "b < length (heap w)"
  shows "\<exists>r self' w'. make_request self w method endpoint params private = (r, self', w') \<and>
     (\<forall>k. k \<noteq> ''request_id'' \<longrightarrow> map_of (heap w' ! b) k = map_of (heap w ! b) k) \<and>
     (\<not> private \<or> has_key ''request_id'' (heap w ! b) \<longrightarrow> heap w' ! b = heap w ! b)"
proof -
  obtain a w1 where o: "or_new_dict params w = (a, w1)" by (cases "or_new_dict params w")
  from make_request_heap [of self w "method" "endpoint" params "private"] o
  obtain r self' w' where m: "make_request self w method endpoint params private = (r, self', w')"
    and h: "heap w' = (if private then heap (ensure_request_id a w1) else heap w)"
    by auto
  from heap_or_new_dict [OF assms o]
  have w1: "heap w1 ! b = heap w ! b" "b < length (heap w1)" by simp_all
  from heap_ensure_request_id [OF w1(2), of a]
  have "heap w' ! b = heap w ! b \<or>
        (private \<and> \<not> has_key ''request_id'' (heap w ! b) \<and>
         (\<exists>v. heap w' ! b = heap w ! b @ [(''request_id'', v)]))"
    using h w1(1) by (cases "private") auto
  then show ?thesis using m by (auto simp: map_add_def split: option.split)
qed

theorem dispatch_changes_request_id_only_witness:
  "map_of (heap (world_of (make_request (init example_config) example_world ''POST''
       ''/private/get-order'' (Some 0) True)) ! 0) ''order_id'' = Some (Scalar (PStr ''42'')) \<and>
   heap (world_of (make_request (init example_config) example_world ''GET''
       ''/public/ticker'' (Some 0) False)) ! 0 = [(''order_id'', Scalar (PStr ''42''))]"
proof -
  have 0: "0 < length (heap example_world)" by (simp add: example_world_def)
  from dispatch_changes_request_id_only [OF 0, of "init example_config" "''POST''"
      "''/private/get-order''" "Some 0" True]
  have a: "map_of (heap (world_of (make_request (init example_config) example_world ''POST''
       ''/private/get-order'' (Some 0) True)) ! 0) ''order_id'' = Some (Scalar (PStr ''42''))"
    by (auto simp: world_of_def example_world_def)
  from dispatch_changes_request_id_only [OF 0, of "init example_config" "''GET''"
      "''/public/ticker''" "Some 0" False]
  have b: "heap (world_of (make_request (init example_config) example_world ''GET''
       ''/public/ticker'' (Some 0) False)) ! 0 = [(''order_id'', Scalar (PStr ''42''))]"
    by (auto simp: world_of_def example_world_def)
  from a b show ?thesis by blast
qed

text \<open>
  C10. A private dispatch with no secret configured raises the \<open>ValueError\<close> of the
  missing secret after the \<open>request_id\<close>: a non-empty Parameter Set without
  \<open>request_id\<close> has got one, appended to the caller's dict, while for an empty or absent
  Parameter Set the \<open>request_id\<close> went to a fresh dict and every object of the caller is
  as before.
\<close>

theorem missing_secret_after_request_id:
  assumes "\<not> truthy_str (secret (config self))" and "valid_params w params"
  shows "\<exists>w'. make_request self w method endpoint params True =
           (Inl (ValueError ''Secret key is required for private API calls''), self, w') \<and>
         (\<forall>a. params = Some a \<and> heap w ! a \<noteq> [] \<and> \<not> has_key ''request_id'' (heap w ! a) \<longrightarrow>
            heap w' = (heap w)[a := heap w ! a @
              [(''request_id'', Scalar (PStr (str_int (clock w (ticks w)))))]]) \<and>
         (params_dict w params = [] \<longrightarrow>
            heap w' = heap w @ [[(''request_id'', Scalar (PStr (str_int (clock w (ticks w)))))]])"
proof -
  let ?w' = "ensure_request_id (fst (or_new_dict params w)) (snd (or_new_dict params w))"
  have 1: "heap ?w' = (heap w)[a := heap w ! a @
              [(''request_id'', Scalar (PStr (str_int (clock w (ticks w)))))]]"
    if "params = Some a" "heap w ! a \<noteq> []" "\<not> has_key ''request_id'' (heap w ! a)" for a
    using that by (simp add: or_new_dict_kept ensure_request_id_absent)
  have 2: "heap ?w' = heap w @ [[(''request_id'', Scalar (PStr (str_int (clock w (ticks w)))))]]"
    if e: "params_dict w params = []"
  proof -
    have "\<not> has_key ''request_id'' (heap (w\<lparr>heap := heap w @ [[]]\<rparr>) ! length (heap w))"
      by (simp add: has_key_def)
    from ensure_request_id_absent [OF this] show ?thesis
      by (simp add: or_new_dict_fresh [OF e])
  qed
  show ?thesis using 1 2 by (simp add: make_request_no_secret [OF assms(1)])
qed
theorem missing_secret_after_request_id_witness:
  "result_of (make_request (init default_config) example_world ''POST'' ''/private/get-order'' (Some 0) True) =
     Inl (ValueError ''Secret key is required for private API calls'') \<and>
   heap (world_of (make_request (init default_config) example_world ''POST'' ''/private/get-order'' (Some 0) True)) =
     [[(''order_id'', Scalar (PStr ''42'')), (''request_id'', Scalar (PStr ''1700000000000000''))]] \<and>
   heap (world_of (make_request (init default_config) example_world ''POST'' ''/private/balances'' None True)) =
     [[(''order_id'', Scalar (PStr ''42''))], [(''request_id'', Scalar (PStr ''1700000000000000''))]]"
proof -
  have 1: "\<not> truthy_str (secret (config (init default_config)))"
    by (simp add: init_def default_config_def)
  have 2: "valid_params example_world (Some 0)" "valid_params example_world None"
    by (simp_all add: valid_params_def example_world_def)
  have 3: "heap example_world ! 0 \<noteq> [] \<and> \<not> has_key ''request_id'' (heap example_world ! 0)"
    by (simp add: example_world_def has_key_def)
  have 4: "(heap example_world)[0 := heap example_world ! 0 @
              [(''request_id'', Scalar (PStr (str_int (clock example_world (ticks example_world)))))]] =
     [[(''order_id'', Scalar (PStr ''42'')), (''request_id'', Scalar (PStr ''1700000000000000''))]]"
    unfolding example_time by (simp add: example_world_def)
  have 5: "params_dict example_world None = []" by (simp add: params_dict_def)
  have 6: "heap example_world @
      [[(''request_id'', Scalar (PStr (str_int (clock example_world (ticks example_world)))))]] =
     [[(''order_id'', Scalar (PStr ''42''))], [(''request_id'', Scalar (PStr ''1700000000000000''))]]"
    unfolding example_time by (simp add: example_world_def)
  from missing_secret_after_request_id [OF 1 2(1), of "''POST''" "''/private/get-order''"] 3
  have a: "result_of (make_request (init default_config) example_world ''POST'' ''/private/get-order'' (Some 0) True) =
     Inl (ValueError ''Secret key is required for private API calls'') \<and>
   heap (world_of (make_request (init default_config) example_world ''POST'' ''/private/get-order'' (Some 0) True)) =
     [[(''order_id'', Scalar (PStr ''42'')), (''request_id'', Scalar (PStr ''1700000000000000''))]]"
    unfolding 4 [symmetric] by (auto simp: result_of_def world_of_def)
  from missing_secret_after_request_id [OF 1 2(2), of "''POST''" "''/private/balances''"] 5
  have b: "heap (world_of (make_request (init default_config) example_world ''POST'' ''/private/balances'' None True)) =
     [[(''order_id'', Scalar (PStr ''42''))], [(''request_id'', Scalar (PStr ''1700000000000000''))]]"
    unfolding 6 [symmetric] by (auto simp: world_of_def)
  from a b show ?thesis by blast
qed

text \<open>
  C4 as stated (the \<open>x-auth-sign\<close> header does not stay in the session, and a
  \<open>get_ticker\<close> after a private call carries none) fails: \<open>_make_request\<close> writes the
  signature into \<open>self.session.headers\<close>, so the \<open>GET\<close> of \<open>get_ticker("BTCUSDT")\<close> that
  follows \<open>get_balances()\<close> carries the signature of the balances request.
\<close>

theorem get_ticker_after_get_balances_sends_x_auth_sign:
  "sent (world_of (get_ticker (client_of after_balances) (world_of after_balances) ''BTCUSDT'')) =
     sent (world_of after_balances) @
     [\<lparr>req_verb = GET, req_url = ''https://api.dex-trade.com/v1/public/ticker'',
       req_params = Some [(''pair'', Scalar (PStr ''BTCUSDT''))],
       req_headers = [''login-token'' \<mapsto> ''token'', ''content-type'' \<mapsto> ''application/json'',
          ''x-auth-sign'' \<mapsto> sha256_hexdigest ''1700000000000000secret'']\<rparr>]"
  unfolding after_balances_eq
  by (simp add: client_of_def world_of_def get_ticker_send send_def example_world_def)
     (simp add: example_config_def default_config_def)

text \<open>
  C4, amended. \<open>get_ticker\<close> sends one \<open>GET\<close> to \<open>/public/ticker\<close> with the pair as
  parameters and with exactly the session headers of the client, which it leaves as they
  are. A fresh client has no \<open>x-auth-sign\<close> among them, and a private dispatch without
  secret adds none; a private dispatch with a secret writes its signature into the
  session headers, where it stays for the calls that follow.
\<close>

theorem x_auth_sign_stays_in_session:
  "(\<exists>r w'. get_ticker self w pair = (r, self, w') \<and>
      sent w' = sent w @
        [\<lparr>req_verb = GET, req_url = base_url (config self) @ ''/public/ticker'',
          req_params = Some [(''pair'', Scalar (PStr pair))],
          req_headers = session_headers self\<rparr>]) \<and>
   session_headers (init cfg) ''x-auth-sign'' = None \<and>
   (\<not> truthy_str (secret (config self)) \<longrightarrow>
      client_of (make_request self w method endpoint params True) = self) \<and>
   (truthy_str (secret (config self)) \<and> valid_params w params \<longrightarrow>
      (\<exists>signature. generate_signature (config self)
           (with_request_id (params_dict w params) (clock w (ticks w))) = Inr signature \<and>
         client_of (make_request self w method endpoint params True) =
           self\<lparr>session_headers := (session_headers self)(''x-auth-sign'' \<mapsto> signature)\<rparr>))"
proof -
  have 1: "\<exists>r w'. get_ticker self w pair = (r, self, w') \<and>
      sent w' = sent w @
        [\<lparr>req_verb = GET, req_url = base_url (config self) @ ''/public/ticker'',
          req_params = Some [(''pair'', Scalar (PStr pair))],
          req_headers = session_headers self\<rparr>]"
    using send_sent [of self "w\<lparr>heap := heap w @ [[(''pair'', Scalar (PStr pair))]]\<rparr>" "''GET''"
        "base_url (config self) @ ''/public/ticker''" "Some (length (heap w))"]
    by (auto simp: get_ticker_send)
  have 2: "session_headers (init cfg) ''x-auth-sign'' = None"
    by (simp add: init_def)
  have 3: "client_of (make_request self w method endpoint params True) = self"
    if "\<not> truthy_str (secret (config self))"
    using that by (simp add: make_request_no_secret client_of_def)
  have 4: "\<exists>signature. generate_signature (config self)
           (with_request_id (params_dict w params) (clock w (ticks w))) = Inr signature \<and>
         client_of (make_request self w method endpoint params True) =
           self\<lparr>session_headers := (session_headers self)(''x-auth-sign'' \<mapsto> signature)\<rparr>"
    if t: "truthy_str (secret (config self))" and v: "valid_params w params"
  proof -
    from generate_signature_ok [OF t] obtain signature where
      g: "generate_signature (config self)
            (with_request_id (params_dict w params) (clock w (ticks w))) = Inr signature"
      by blast
    from private_dispatch_outcome [OF v g, of "method" "endpoint"] g
    show ?thesis by (auto simp: client_of_def)
  qed
  from 1 2 3 4 show ?thesis by blast
qed

theorem x_auth_sign_stays_in_session_witness:
  "sent (world_of (get_ticker (init example_config) example_world ''BTCUSDT'')) =
     [\<lparr>req_verb = GET, req_url = ''https://api.dex-trade.com/v1/public/ticker'',
       req_params = Some [(''pair'', Scalar (PStr ''BTCUSDT''))],
       req_headers = [''login-token'' \<mapsto> ''token'', ''content-type'' \<mapsto> ''application/json'']\<rparr>] \<and>
   client_of (make_request (init default_config) example_world ''POST'' ''/private/get-order'' (Some 0) True) =
     init default_config \<and>
   (\<exists>signature.
      session_headers (client_of (make_request (init example_config) example_world ''POST''
         ''/private/get-order'' (Some 0) True)) ''x-auth-sign'' = Some signature)"
proof -
  have 1: "\<not> truthy_str (secret (config (init default_config)))"
    by (simp add: init_def default_config_def)
  have 2: "truthy_str (secret (config (init example_config))) \<and> valid_params example_world (Some 0)"
    by (simp add: init_def example_config_def valid_params_def example_world_def)
  have 3: "sent example_world = []" "base_url (config (init example_config)) @ ''/public/ticker'' =
      ''https://api.dex-trade.com/v1/public/ticker''"
     "session_headers (init example_config) =
        [''login-token'' \<mapsto> ''token'', ''content-type'' \<mapsto> ''application/json'']"
    by (simp_all add: example_world_def init_def example_config_def default_config_def)
  note inst = x_auth_sign_stays_in_session [of _ example_world "''BTCUSDT''" example_config
      "''POST''" "''/private/get-order''" "Some 0"]
  from inst [of "init example_config"]
  have a: "sent (world_of (get_ticker (init example_config) example_world ''BTCUSDT'')) =
     [\<lparr>req_verb = GET, req_url = ''https://api.dex-trade.com/v1/public/ticker'',
       req_params = Some [(''pair'', Scalar (PStr ''BTCUSDT''))],
       req_headers = [''login-token'' \<mapsto> ''token'', ''content-type'' \<mapsto> ''application/json'']\<rparr>]"
    unfolding 3 by (auto simp: world_of_def)
  from inst [of "init default_config"] 1
  have b: "client_of (make_request (init default_config) example_world ''POST'' ''/private/get-order'' (Some 0) True) =
     init default_config" by blast
  from inst [of "init example_config"] 2
  obtain signature where
    "client_of (make_request (init example_config) example_world ''POST'' ''/private/get-order'' (Some 0) True) =
       (init example_config)\<lparr>session_headers :=
          (session_headers (init example_config))(''x-auth-sign'' \<mapsto> signature)\<rparr>"
    by blast
  then have c: "\<exists>signature.
      session_headers (client_of (make_request (init example_config) example_world ''POST''
         ''/private/get-order'' (Some 0) True)) ''x-auth-sign'' = Some signature"
    by simp
  from a b c show ?thesis by blast
qed

text \<open>
  C8 as stated (the \<open>content-type\<close> header is set at construction) fails: \<open>__init__\<close>
  sets both headers under the test of the login token, so a client built without one
  has no \<open>content-type\<close> header.
\<close>

theorem init_without_login_token_sets_no_content_type:
  "login_token default_config = None \<and>
   session_headers (init default_config) ''content-type'' = None"
  by (simp add: init_def default_config_def)

text \<open>
  C8, amended. \<open>__init__\<close> sets \<open>login-token\<close> and \<open>content-type: application/json\<close>
  together when a login token is configured (not \<open>None\<close>, not empty), and sets no header
  otherwise. Afterwards a public dispatch and the four public endpoint methods leave the
  client as it is, and a private dispatch and the six private endpoint methods change at
  most the \<open>x-auth-sign\<close> entry.
\<close>

theorem persistent_headers:
  "(\<forall>t. login_token cfg = Some t \<and> t \<noteq> [] \<longrightarrow>
      session_headers (init cfg) =
        [''login-token'' \<mapsto> t, ''content-type'' \<mapsto> ''application/json'']) \<and>
   (\<not> truthy_str (login_token cfg) \<longrightarrow> session_headers (init cfg) = Map.empty) \<and>
   client_of (make_request self w method endpoint params False) = self \<and>
   same_but_sign self (client_of (make_request self w method endpoint params True)) \<and>
   client_of (get_symbols getitem self w) = self \<and>
   client_of (get_ticker self w pair) = self \<and>
   client_of (get_order_book self w pair) = self \<and>
   client_of (get_trade_history self w pair) = self \<and>
   same_but_sign self
     (client_of (create_order fstr self w pair type_trade order_type volume rate stop_rate)) \<and>
   same_but_sign self (client_of (get_active_orders self w)) \<and>
   same_but_sign self (client_of (get_order self w order_id)) \<and>
   same_but_sign self (client_of (cancel_order self w order_id)) \<and>
   same_but_sign self (client_of (get_balances self w)) \<and>
   same_but_sign self (client_of (get_deposit_address self w currency network new))"
proof -
  have "session_headers (init cfg) = [''login-token'' \<mapsto> t, ''content-type'' \<mapsto> ''application/json'']"
    if "login_token cfg = Some t" "t \<noteq> []" for t
    using that by (simp add: init_def)
  moreover have "session_headers (init cfg) = Map.empty" if "\<not> truthy_str (login_token cfg)"
    using that by (simp add: init_def)
  ultimately show ?thesis
    by (simp add: public_endpoints_client private_endpoints_client make_request_public_client
        make_request_same_but_sign)
qed

theorem persistent_headers_witness:
  "session_headers (init example_config) =
     [''login-token'' \<mapsto> ''token'', ''content-type'' \<mapsto> ''application/json''] \<and>
   session_headers (init (default_config\<lparr>login_token := Some ''''\<rparr>)) = Map.empty \<and>
   session_headers (client_of after_balances) ''login-token'' = Some ''token''"
proof -
  have 1: "login_token example_config = Some ''token'' \<and> ''token'' \<noteq> []"
    by (simp add: example_config_def)
  have 2: "\<not> truthy_str (login_token (default_config\<lparr>login_token := Some ''''\<rparr>))"
    by simp
  have 3: "session_headers (init example_config) ''login-token'' = Some ''token''"
    by (simp add: init_def example_config_def)
  note inst = persistent_headers [of _ _ example_world "''POST''" "''/private/balances''" None
      "\<lambda>j k. None" "''BTCUSDT''" "\<lambda>x::nat. ''1''" LIMIT BUY 1 None None 0 "''BTC''" None False]
  from inst [of example_config "init example_config"] 1
  have a: "session_headers (init example_config) =
     [''login-token'' \<mapsto> ''token'', ''content-type'' \<mapsto> ''application/json'']" by blast
  from inst [of "default_config\<lparr>login_token := Some ''''\<rparr>" "init example_config"] 2
  have b: "session_headers (init (default_config\<lparr>login_token := Some ''''\<rparr>)) = Map.empty" by blast
  from inst [of example_config "init example_config"]
  have "same_but_sign (init example_config) (client_of (get_balances (init example_config) example_world))"
    by blast
  then have "((session_headers (client_of after_balances))(''x-auth-sign'' := None)) ''login-token'' =
     ((session_headers (init example_config))(''x-auth-sign'' := None)) ''login-token''"
    by (simp add: same_but_sign_def after_balances_def)
  then have c: "session_headers (client_of after_balances) ''login-token'' = Some ''token''"
    using 3 by simp
  from a b c show ?thesis by blast
qed

text \<open>
  C6. \<open>create_order\<close> of a \<open>LIMIT\<close> order without rate raises the \<open>ValueError\<close> of the
  missing rate, and of a \<open>STOP_LIMIT\<close> order without stop rate a \<open>ValueError\<close> too, both
  with no request handed to the transport. With the rate (and, for \<open>STOP_LIMIT\<close>, the
  stop rate) it is the private dispatch of a dict that holds \<open>rate\<close> (and
  \<open>stop_rate\<close>) as the strings of the floats, and with a secret configured these entries
  are in the request that goes out.
\<close>

theorem create_order_required_fields:
  "(\<exists>w'. create_order fstr self w pair LIMIT order_type volume None stop_rate =
           (Inl (ValueError ''Rate is required for LIMIT and STOP_LIMIT orders''), self, w') \<and>
         sent w' = sent w) \<and>
   (\<exists>msg w'. create_order fstr self w pair STOP_LIMIT order_type volume rate None =
           (Inl (ValueError msg), self, w') \<and>
         sent w' = sent w) \<and>
   create_order fstr self w pair LIMIT order_type volume (Some r) stop_rate =
     make_request self
       (w\<lparr>heap := heap w @
          [[(''pair'', Scalar (PStr pair)), (''type_trade'', Scalar (PInt 0)),
            (''type'', Scalar (PInt (OrderType_value order_type))),
            (''volume'', Scalar (PStr (fstr volume))),
            (''rate'', Scalar (PStr (fstr r)))]]\<rparr>)
       ''POST'' ''/private/create-order'' (Some (length (heap w))) True \<and>
   create_order fstr self w pair STOP_LIMIT order_type volume (Some r) (Some sr) =
     make_request self
       (w\<lparr>heap := heap w @
          [[(''pair'', Scalar (PStr pair)), (''type_trade'', Scalar (PInt 2)),
            (''type'', Scalar (PInt (OrderType_value order_type))),
            (''volume'', Scalar (PStr (fstr volume))),
            (''rate'', Scalar (PStr (fstr r))),
            (''stop_rate'', Scalar (PStr (fstr sr)))]]\<rparr>)
       ''POST'' ''/private/create-order'' (Some (length (heap w))) True \<and>
   (truthy_str (secret (config self)) \<longrightarrow>
      (\<exists>signature res self' w'.
         create_order fstr self w pair STOP_LIMIT order_type volume (Some r) (Some sr) =
           (res, self', w') \<and>
         sent w' = sent w @
           [\<lparr>req_verb = POST, req_url = base_url (config self) @ ''/private/create-order'',
             req_params = Some
               [(''pair'', Scalar (PStr pair)), (''type_trade'', Scalar (PInt 2)),
                (''type'', Scalar (PInt (OrderType_value order_type))),
                (''volume'', Scalar (PStr (fstr volume))),
                (''rate'', Scalar (PStr (fstr r))),
                (''stop_rate'', Scalar (PStr (fstr sr))),
                (''request_id'', Scalar (PStr (str_int (clock w (ticks w)))))],
             req_headers = (session_headers self)(''x-auth-sign'' \<mapsto> signature)\<rparr>]))"
proof -
  have 1: "\<exists>w'. create_order fstr self w pair LIMIT order_type volume None stop_rate =
           (Inl (ValueError ''Rate is required for LIMIT and STOP_LIMIT orders''), self, w') \<and>
         sent w' = sent w"
    by (simp add: create_order_def new_dict_eq add_rate_def)
  have 2: "\<exists>msg w'. create_order fstr self w pair STOP_LIMIT order_type volume rate None =
           (Inl (ValueError msg), self, w') \<and> sent w' = sent w"
    by (cases rate) (simp_all add: create_order_def new_dict_eq add_rate_def add_stop_rate_def set_item_def)
  have 3: "\<exists>signature res self' w'.
         create_order fstr self w pair STOP_LIMIT order_type volume (Some r) (Some sr) =
           (res, self', w') \<and>
         sent w' = sent w @
           [\<lparr>req_verb = POST, req_url = base_url (config self) @ ''/private/create-order'',
             req_params = Some
               [(''pair'', Scalar (PStr pair)), (''type_trade'', Scalar (PInt 2)),
                (''type'', Scalar (PInt (OrderType_value order_type))),
                (''volume'', Scalar (PStr (fstr volume))),
                (''rate'', Scalar (PStr (fstr r))),
                (''stop_rate'', Scalar (PStr (fstr sr))),
                (''request_id'', Scalar (PStr (str_int (clock w (ticks w)))))],
             req_headers = (session_headers self)(''x-auth-sign'' \<mapsto> signature)\<rparr>]"
    if t: "truthy_str (secret (config self))"
  proof -
    let ?d = "[(''pair'', Scalar (PStr pair)), (''type_trade'', Scalar (PInt 2)),
            (''type'', Scalar (PInt (OrderType_value order_type))),
            (''volume'', Scalar (PStr (fstr volume))),
            (''rate'', Scalar (PStr (fstr r))),
            (''stop_rate'', Scalar (PStr (fstr sr)))]"
    have "?d \<noteq> []" and "\<not> has_key ''request_id'' ?d" by (simp_all add: has_key_def)
    from private_dispatch_new_dict [OF t this, of w "''POST''" "''/private/create-order''"]
    show ?thesis unfolding create_order_stop_limit by simp
  qed
  from 1 2 3 show ?thesis
    using create_order_limit [of fstr self w pair order_type volume r stop_rate]
      create_order_stop_limit [of fstr self w pair order_type volume r sr]
    by blast
qed

theorem create_order_required_fields_witness:
  "\<exists>signature.
     sent (world_of (create_order (\<lambda>x. x) (init example_config) example_world ''BTCUSDT''
        STOP_LIMIT BUY ''0.001'' (Some ''50000.0'') (Some ''49000.0''))) =
     [\<lparr>req_verb = POST, req_url = ''https://api.dex-trade.com/v1/private/create-order'',
       req_params = Some
         [(''pair'', Scalar (PStr ''BTCUSDT'')), (''type_trade'', Scalar (PInt 2)),
          (''type'', Scalar (PInt 0)), (''volume'', Scalar (PStr ''0.001'')),
          (''rate'', Scalar (PStr ''50000.0'')), (''stop_rate'', Scalar (PStr ''49000.0'')),
          (''request_id'', Scalar (PStr ''1700000000000000''))],
       req_headers = [''login-token'' \<mapsto> ''token'', ''content-type'' \<mapsto> ''application/json'',
                      ''x-auth-sign'' \<mapsto> signature]\<rparr>]"
proof -
  have 1: "truthy_str (secret (config (init example_config)))"
    by (simp add: init_def example_config_def)
  have 2: "sent example_world = []"
    "base_url (config (init example_config)) @ ''/private/create-order'' =
       ''https://api.dex-trade.com/v1/private/create-order''"
    "session_headers (init example_config) =
       [''login-token'' \<mapsto> ''token'', ''content-type'' \<mapsto> ''application/json'']"
    "OrderType_value BUY = 0"
    by (simp_all add: example_world_def init_def example_config_def default_config_def)
  from create_order_required_fields [of "\<lambda>x. x" "init example_config" example_world "''BTCUSDT''"
      BUY "''0.001''" None None "''50000.0''" "''49000.0''"] 1
  obtain signature res self' w' where
    "create_order (\<lambda>x. x) (init example_config) example_world ''BTCUSDT''
        STOP_LIMIT BUY ''0.001'' (Some ''50000.0'') (Some ''49000.0'') = (res, self', w')"
    and "sent w' = sent example_world @
           [\<lparr>req_verb = POST,
             req_url = base_url (config (init example_config)) @ ''/private/create-order'',
             req_params = Some
               [(''pair'', Scalar (PStr ''BTCUSDT'')), (''type_trade'', Scalar (PInt 2)),
                (''type'', Scalar (PInt (OrderType_value BUY))),
                (''volume'', Scalar (PStr ''0.001'')),
                (''rate'', Scalar (PStr ''50000.0'')),
                (''stop_rate'', Scalar (PStr ''49000.0'')),
                (''request_id'', Scalar (PStr (str_int (clock example_world (ticks example_world)))))],
             req_headers = (session_headers (init example_config))(''x-auth-sign'' \<mapsto> signature)\<rparr>]"
    by blast
  then show ?thesis
    unfolding 2 example_time by (auto simp: world_of_def)
qed

end
